theory Spec2Isabelle
  imports Complex_Main "HOL-Library.Log_Nat"
begin

chapter \<open>The model\<close>

section \<open>JavaScript numbers\<close>

text \<open>
  A JavaScript number is a finite value or one of the three special values, so that a
  division by zero is a visible value of the model and not HOL's \<open>x / 0 = 0\<close>. The sign
  of zero is not modelled: a zero divisor counts as \<open>+0\<close>. A \<open>bigint\<close> is an \<open>int\<close>.
\<close>

datatype number = Fin real | PosInfinity | NegInfinity | NaN

text \<open>
  The quotient \<open>a / b\<close> of finite operands without rounding. The time estimate and the
  statistics below are kept over this exact quotient; the migration probability and the
  profit and loss of a position are computed in double precision, as the source computes
  them (next section).
\<close>

definition js_div :: "real \<Rightarrow> real \<Rightarrow> number" where
  "js_div a b =
     (if b \<noteq> 0 then Fin (a / b)
      else if 0 < a then PosInfinity
      else if a < 0 then NegInfinity
      else NaN)"

text \<open>\<open>Math.max(x, b)\<close> with a finite second operand.\<close>

fun Math_max :: "number \<Rightarrow> real \<Rightarrow> number" where
  "Math_max (Fin a) b = Fin (max a b)"
| "Math_max PosInfinity b = PosInfinity"
| "Math_max NegInfinity b = Fin b"
| "Math_max NaN b = NaN"

text \<open>The comparisons \<open>x <= y\<close>, \<open>x < y\<close> and \<open>x >= y\<close>; every comparison with NaN is false.\<close>

fun number_le :: "number \<Rightarrow> number \<Rightarrow> bool" where
  "number_le NaN y = False"
| "number_le x NaN = False"
| "number_le NegInfinity y = True"
| "number_le x PosInfinity = True"
| "number_le (Fin a) (Fin b) = (a \<le> b)"
| "number_le (Fin a) NegInfinity = False"
| "number_le PosInfinity (Fin b) = False"
| "number_le PosInfinity NegInfinity = False"

fun number_lt :: "number \<Rightarrow> real \<Rightarrow> bool" where
  "number_lt (Fin a) b = (a < b)"
| "number_lt NegInfinity b = True"
| "number_lt PosInfinity b = False"
| "number_lt NaN b = False"

fun number_ge :: "number \<Rightarrow> real \<Rightarrow> bool" where
  "number_ge (Fin a) b = (b \<le> a)"
| "number_ge PosInfinity b = True"
| "number_ge NegInfinity b = False"
| "number_ge NaN b = False"

section \<open>Double-precision arithmetic\<close>

text \<open>
  JavaScript rounds the result of every arithmetic operation to the nearest IEEE 754
  double, ties to even. \<open>floorLog2 x\<close> is the binary exponent \<open>e\<close> of a positive \<open>x\<close>, with
  \<open>2\<^sup>e \<le> x < 2\<^sup>e\<^sup>+\<^sup>1\<close>, computed from the bit length of an integer.
\<close>

definition floorLog2 :: "real \<Rightarrow> int" where
  "floorLog2 x = (if 1 \<le> x then bitlen \<lfloor>x\<rfloor> - 1 else - bitlen (\<lceil>1 / x\<rceil> - 1))"

text \<open>The nearest integer, the even one of two that are equally near.\<close>

definition roundHalfEven :: "real \<Rightarrow> int" where
  "roundHalfEven x =
     (let n = \<lfloor>x\<rfloor>; f = x - real_of_int n
      in if f < 1 / 2 then n else if 1 / 2 < f then n + 1 else if even n then n else n + 1)"

text \<open>
  A double has 53 significant bits and a binary exponent of at least \<open>-1022\<close>: a value
  with binary exponent \<open>e\<close> is rounded to a multiple of \<open>2\<close> to the power
  \<open>max e (-1022) - 52\<close> (below the exponent \<open>-1022\<close> these are the subnormal numbers), and
  a result of magnitude \<open>2\<^sup>1\<^sup>0\<^sup>2\<^sup>4\<close> or more is an infinity.
\<close>

definition doubleExponent :: "real \<Rightarrow> int" where
  "doubleExponent x = max (floorLog2 \<bar>x\<bar>) (- 1022) - 52"

definition roundAt :: "int \<Rightarrow> real \<Rightarrow> real" where
  "roundAt e x = real_of_int (roundHalfEven (x / 2 powi e)) * 2 powi e"

definition double :: "real \<Rightarrow> number" where
  "double x =
     (if x = 0 then Fin 0
      else
        (let r = roundAt (doubleExponent x) x
         in if 2 ^ 1024 \<le> r then PosInfinity
            else if r \<le> - (2 ^ 1024) then NegInfinity
            else Fin r))"


definition decimalLiteral :: "real \<Rightarrow> real" where
  "decimalLiteral x = (case double x of Fin r \<Rightarrow> r | _ \<Rightarrow> 0)"



text \<open>
  The arithmetic operators on numbers: the exact result rounded, and the results IEEE 754
  gives for the special values.
\<close>

fun number_uminus :: "number \<Rightarrow> number" where
  "number_uminus (Fin a) = Fin (- a)"
| "number_uminus PosInfinity = NegInfinity"
| "number_uminus NegInfinity = PosInfinity"
| "number_uminus NaN = NaN"

fun double_plus :: "number \<Rightarrow> number \<Rightarrow> number" where
  "double_plus (Fin a) (Fin b) = double (a + b)"
| "double_plus NaN y = NaN"
| "double_plus x NaN = NaN"
| "double_plus PosInfinity NegInfinity = NaN"
| "double_plus NegInfinity PosInfinity = NaN"
| "double_plus PosInfinity y = PosInfinity"
| "double_plus NegInfinity y = NegInfinity"
| "double_plus x PosInfinity = PosInfinity"
| "double_plus x NegInfinity = NegInfinity"

definition double_minus :: "number \<Rightarrow> number \<Rightarrow> number" where
  "double_minus x y = double_plus x (number_uminus y)"

text \<open>The infinity with the sign of \<open>s\<close>; \<open>NaN\<close> for \<open>s = 0\<close>.\<close>

definition infinityOfSign :: "real \<Rightarrow> number" where
  "infinityOfSign s = (if 0 < s then PosInfinity else if s < 0 then NegInfinity else NaN)"

fun double_times :: "number \<Rightarrow> number \<Rightarrow> number" where
  "double_times (Fin a) (Fin b) = double (a * b)"
| "double_times NaN y = NaN"
| "double_times x NaN = NaN"
| "double_times (Fin a) PosInfinity = infinityOfSign a"
| "double_times (Fin a) NegInfinity = infinityOfSign (- a)"
| "double_times PosInfinity (Fin b) = infinityOfSign b"
| "double_times NegInfinity (Fin b) = infinityOfSign (- b)"
| "double_times PosInfinity PosInfinity = PosInfinity"
| "double_times PosInfinity NegInfinity = NegInfinity"
| "double_times NegInfinity PosInfinity = NegInfinity"
| "double_times NegInfinity NegInfinity = PosInfinity"

fun double_divide :: "number \<Rightarrow> number \<Rightarrow> number" where
  "double_divide (Fin a) (Fin b) = (if b \<noteq> 0 then double (a / b) else infinityOfSign a)"
| "double_divide NaN y = NaN"
| "double_divide x NaN = NaN"
| "double_divide (Fin a) PosInfinity = Fin 0"
| "double_divide (Fin a) NegInfinity = Fin 0"
| "double_divide PosInfinity (Fin b) = (if 0 \<le> b then PosInfinity else NegInfinity)"
| "double_divide NegInfinity (Fin b) = (if 0 \<le> b then NegInfinity else PosInfinity)"
| "double_divide PosInfinity PosInfinity = NaN"
| "double_divide PosInfinity NegInfinity = NaN"
| "double_divide NegInfinity PosInfinity = NaN"
| "double_divide NegInfinity NegInfinity = NaN"

text \<open>\<open>Math.min(x, y)\<close>.\<close>

fun Math_min :: "number \<Rightarrow> number \<Rightarrow> number" where
  "Math_min NaN y = NaN"
| "Math_min x NaN = NaN"
| "Math_min NegInfinity y = NegInfinity"
| "Math_min x NegInfinity = NegInfinity"
| "Math_min PosInfinity y = y"
| "Math_min x PosInfinity = x"
| "Math_min (Fin a) (Fin b) = Fin (min a b)"

text \<open>\<open>Number(n)\<close> for a \<open>bigint\<close>.\<close>

definition Number_of_bigint :: "int \<Rightarrow> number" where
  "Number_of_bigint n = double (real_of_int n)"

section \<open>Migration detector: configuration and the prediction functions\<close>

text \<open>
  \<open>MigrationDetectorConfig\<close> (index.ts, lines 910-918). The field
  \<open>marketCapCalculationMethod\<close> is read by no code and is left out.
\<close>

record MigrationDetectorConfig =
  migrationThreshold :: real
  preMigrationBuffer :: real
  checkInterval :: real
  confirmationBlocks :: nat
  maxTokensToMonitor :: int
  enablePredictiveAnalysis :: bool

text \<open>\<open>loadMigrationConfig\<close> with the defaults of lines 1536-1546.\<close>

definition defaultMigrationConfig :: MigrationDetectorConfig where
  "defaultMigrationConfig =
     \<lparr> migrationThreshold = 18, preMigrationBuffer = 1 / 2, checkInterval = 1000,
       confirmationBlocks = 3, maxTokensToMonitor = 50, enablePredictiveAnalysis = True \<rparr>"

text \<open>
  \<open>calculateMigrationProbability\<close> (lines 1320-1345), in double precision: the test of
  the second branch compares the market cap with the rounded difference
  \<open>threshold - buffer\<close>, and every operation of the two formulas is rounded. The literals
  \<open>0.7\<close> and \<open>0.3\<close> are the doubles nearest to them. No operation of the body throws, so
  the catch of line 1341 is never taken.
\<close>

definition calculateMigrationProbability ::
  "MigrationDetectorConfig \<Rightarrow> real \<Rightarrow> real \<Rightarrow> number" where
  "calculateMigrationProbability cfg currentMarketCap bondingCurveProgress =
     (let threshold = migrationThreshold cfg;
          buffer = preMigrationBuffer cfg
      in if currentMarketCap \<ge> threshold then Fin 1
         else if number_le (double_minus (Fin threshold) (Fin buffer)) (Fin currentMarketCap) then
           (let progressInBuffer =
                  double_divide
                    (double_minus (Fin currentMarketCap)
                       (double_minus (Fin threshold) (Fin buffer)))
                    (Fin buffer)
            in double_plus (double (7 / 10)) (double_times progressInBuffer (double (3 / 10))))
         else
           (let progressFactor = Fin bondingCurveProgress;
                marketCapFactor = double_divide (Fin currentMarketCap) (Fin threshold)
            in Math_min (double_times progressFactor marketCapFactor) (double (7 / 10))))"




definition mockProgress :: real where
  "mockProgress = decimalLiteral (43 / 50)"

text \<open>\<open>estimateTimeToMigration\<close> (lines 1347-1363).\<close>

definition estimateTimeToMigration :: "real \<Rightarrow> real \<Rightarrow> number" where
  "estimateTimeToMigration distanceToMigration bondingCurveProgress =
     (if distanceToMigration \<le> 0 then Fin 0
      else
        (let progressRate = bondingCurveProgress / 100;
             estimatedTime = js_div distanceToMigration progressRate
         in Math_max estimatedTime 1000))"


section \<open>JavaScript maps\<close>

text \<open>
  A JavaScript \<open>Map\<close> keeps its entries in insertion order and the source iterates over
  them, so a map is a list of key-value pairs: \<open>set\<close> replaces the value of a present
  key in place and appends an absent one, \<open>delete\<close> removes the entry.
\<close>

definition Map_has :: "'k \<Rightarrow> ('k \<times> 'v) list \<Rightarrow> bool" where
  "Map_has k m = (k \<in> set (map fst m))"

definition Map_get :: "'k \<Rightarrow> ('k \<times> 'v) list \<Rightarrow> 'v option" where
  "Map_get k m = map_of m k"

fun Map_set :: "'k \<Rightarrow> 'v \<Rightarrow> ('k \<times> 'v) list \<Rightarrow> ('k \<times> 'v) list" where
  "Map_set k v [] = [(k, v)]"
| "Map_set k v (e # m) = (if fst e = k then (k, v) # m else e # Map_set k v m)"

definition Map_delete :: "'k \<Rightarrow> ('k \<times> 'v) list \<Rightarrow> ('k \<times> 'v) list" where
  "Map_delete k m = filter (\<lambda>e. fst e \<noteq> k) m"

definition Map_size :: "('k \<times> 'v) list \<Rightarrow> int" where
  "Map_size m = int (length m)"

text \<open>The number of entries a map holds for one key.\<close>

definition entries_for :: "'k \<Rightarrow> ('k \<times> 'v) list \<Rightarrow> nat" where
  "entries_for k m = length (filter (\<lambda>e. fst e = k) m)"

section \<open>Migration detector: data and state\<close>

text \<open>
  A thrown \<open>Error\<close>. \<open>MonitoringLimitReached n\<close> is the error of \<open>addToken\<close> (line 1072),
  \<open>PairNotFound\<close> the one of \<open>getPancakeSwapMarketCap\<close> (line 1275), and \<open>External\<close> an
  error thrown by a collaborator (the JSON-RPC provider, a contract call, the swap venue)
  that the source rethrows.
\<close>

datatype error = MonitoringLimitReached int | PairNotFound | External string

text \<open>\<open>TokenData\<close> (lines 920-931).\<close>

record TokenData =
  address :: string
  name :: string
  symbol :: string
  decimals :: nat
  totalSupply :: int
  bondingCurveAddress :: string
  pancakeSwapPairAddress :: "string option"
  isMigrated :: bool
  migrationBlock :: "nat option"
  migrationTxHash :: "string option"

text \<open>
  What the market data source returns for one asset: the object of
  \<open>getBondingCurveMarketCap\<close> and \<open>getPancakeSwapMarketCap\<close> (lines 1255-1307).
\<close>

record MarketData =
  md_marketCap :: real
  md_liquidityBNB :: real
  md_progress :: real

text \<open>\<open>MigrationStatus\<close> (lines 933-944); the fields carry the prefix \<open>ms_\<close>.\<close>

record MigrationStatus =
  ms_tokenAddress :: string
  ms_currentMarketCap :: real
  ms_migrationThreshold :: real
  ms_distanceToMigration :: real
  ms_migrationProbability :: number
  ms_estimatedTimeToMigration :: number
  ms_bondingCurveProgress :: real
  ms_liquidityBNB :: real
  ms_priceImpact :: real
  ms_lastUpdated :: int

text \<open>\<open>MigrationEvent\<close> (lines 946-956); the fields carry the prefix \<open>me_\<close>.\<close>

record MigrationEvent =
  me_tokenAddress :: string
  me_tokenData :: TokenData
  me_migrationStatus :: MigrationStatus
  me_migrationTxHash :: string
  me_migrationBlock :: nat
  me_timestamp :: int
  me_preMigrationMarketCap :: real
  me_postMigrationMarketCap :: real
  me_liquidityAdded :: real

text \<open>The events the detector emits, by the name of the event.\<close>

datatype detector_event =
  TokenAdded string
  | TokenRemoved string
  | MigrationDetected MigrationEvent
  | StatusUpdate string

text \<open>
  The state of a \<open>MigrationDetector\<close> (lines 972-982): its configuration, the two maps
  the claims are about, and the events emitted so far, oldest first. The map
  \<open>predictiveAnalyses\<close> is written beside \<open>migrationStatuses\<close> and read by no decision; it
  is left out.
\<close>

record MigrationDetector =
  migrationConfig :: MigrationDetectorConfig
  monitoredTokens :: "(string \<times> TokenData) list"
  migrationStatuses :: "(string \<times> MigrationStatus) list"
  emitted :: "detector_event list"

definition newMigrationDetector :: "MigrationDetectorConfig \<Rightarrow> MigrationDetector" where
  "newMigrationDetector cfg =
     \<lparr> migrationConfig = cfg, monitoredTokens = [], migrationStatuses = [], emitted = [] \<rparr>"

section \<open>Migration detector: registration\<close>

definition zeroAddress :: string where
  "zeroAddress = ''0x0000000000000000000000000000000000000000''"

text \<open>
  \<open>fetchTokenData\<close> (lines 1136-1176). The ERC-20 reads either throw or give the four
  metadata values; \<open>findBondingCurveAddress\<close> is the placeholder of line 1182;
  \<open>findPancakeSwapPair\<close> gives a pair address or \<open>undefined\<close> (it catches its errors).
\<close>

definition fetchTokenData ::
  "string \<Rightarrow> error + (string \<times> string \<times> nat \<times> int) \<Rightarrow> string option \<Rightarrow> error + TokenData" where
  "fetchTokenData tokenAddress erc20 pair =
     (case erc20 of
        Inl e \<Rightarrow> Inl e
      | Inr (nm, smb, dec, supply) \<Rightarrow>
          Inr \<lparr> address = tokenAddress, name = nm, symbol = smb, decimals = dec,
                totalSupply = supply, bondingCurveAddress = zeroAddress,
                pancakeSwapPairAddress = pair, isMigrated = (pair \<noteq> None),
                migrationBlock = None, migrationTxHash = None \<rparr>)"

text \<open>
  \<open>calculateMigrationStatus\<close> (lines 1211-1253). The reading is what the market data
  source returns for the token on this call (an error when it throws); for a migrated
  token the progress is set to 1.
\<close>

definition calculateMigrationStatus ::
  "MigrationDetectorConfig \<Rightarrow> TokenData \<Rightarrow> error + MarketData \<Rightarrow> int \<Rightarrow> error + MigrationStatus" where
  "calculateMigrationStatus cfg tokenData reading now =
     (case reading of
        Inl e \<Rightarrow> Inl e
      | Inr md \<Rightarrow>
          (let currentMarketCap = md_marketCap md;
               liquidityBNB = md_liquidityBNB md;
               bondingCurveProgress = (if isMigrated tokenData then 1 else md_progress md);
               distanceToMigration = max 0 (migrationThreshold cfg - currentMarketCap)
           in Inr \<lparr> ms_tokenAddress = address tokenData,
                    ms_currentMarketCap = currentMarketCap,
                    ms_migrationThreshold = migrationThreshold cfg,
                    ms_distanceToMigration = distanceToMigration,
                    ms_migrationProbability =
                      calculateMigrationProbability cfg currentMarketCap bondingCurveProgress,
                    ms_estimatedTimeToMigration =
                      estimateTimeToMigration distanceToMigration bondingCurveProgress,
                    ms_bondingCurveProgress = bondingCurveProgress,
                    ms_liquidityBNB = liquidityBNB,
                    ms_priceImpact = 0,
                    ms_lastUpdated = now \<rparr>))"

text \<open>The mock reading of \<open>getBondingCurveMarketCap\<close> (lines 1259-1263).\<close>

definition bondingCurveMock :: MarketData where
  "bondingCurveMock =
     \<lparr> md_marketCap = 31 / 2, md_liquidityBNB = 31 / 2, md_progress = mockProgress \<rparr>"

text \<open>What one call of \<open>addToken\<close> reads from the outside.\<close>

record add_env =
  ae_erc20 :: "error + (string \<times> string \<times> nat \<times> int)"
  ae_pair :: "string option"
  ae_reading :: "error + MarketData"
  ae_clock :: int

text \<open>
  \<open>addToken\<close> (lines 1060-1099), run from its call to its end with no other call in
  between. The result pairs the error the call throws, if any, with the state it leaves:
  a throw of \<open>calculateMigrationStatus\<close> comes after the token has been stored.
\<close>

definition addToken :: "string \<Rightarrow> add_env \<Rightarrow> MigrationDetector \<Rightarrow> error option \<times> MigrationDetector" where
  "addToken tokenAddress env d =
     (if Map_has tokenAddress (monitoredTokens d) then (None, d)
      else if Map_size (monitoredTokens d) \<ge> maxTokensToMonitor (migrationConfig d) then
        (Some (MonitoringLimitReached (maxTokensToMonitor (migrationConfig d))), d)
      else
        (case fetchTokenData tokenAddress (ae_erc20 env) (ae_pair env) of
           Inl e \<Rightarrow> (Some e, d)
         | Inr tokenData \<Rightarrow>
             (let d1 = d\<lparr>monitoredTokens := Map_set tokenAddress tokenData (monitoredTokens d)\<rparr>
              in case calculateMigrationStatus (migrationConfig d) tokenData (ae_reading env) (ae_clock env) of
                   Inl e \<Rightarrow> (Some e, d1)
                 | Inr migrationStatus \<Rightarrow>
                     (None,
                      d1\<lparr>migrationStatuses :=
                            Map_set tokenAddress migrationStatus (migrationStatuses d1),
                          emitted := emitted d1 @ [TokenAdded tokenAddress]\<rparr>))))"

text \<open>
  \<open>addToken\<close> is an \<open>async\<close> method that any caller may call at any time, and it suspends
  at \<open>await this.fetchTokenData\<close> (line 1076), between the two tests and the
  \<open>monitoredTokens.set\<close> of line 1079. \<open>addToken_begin\<close> is the code before that await (lines
  1065-1073): \<open>Some r\<close> when the call ends there, returning (\<open>r = None\<close>) or throwing the
  limit error, and \<open>None\<close> when it suspends. \<open>addToken_resume\<close> is the code after it (lines
  1076-1094), run with no other call in between.
\<close>

definition addToken_begin :: "string \<Rightarrow> MigrationDetector \<Rightarrow> error option option" where
  "addToken_begin tokenAddress d =
     (if Map_has tokenAddress (monitoredTokens d) then Some None
      else if Map_size (monitoredTokens d) \<ge> maxTokensToMonitor (migrationConfig d) then
        Some (Some (MonitoringLimitReached (maxTokensToMonitor (migrationConfig d))))
      else None)"

definition addToken_resume ::
  "string \<Rightarrow> add_env \<Rightarrow> MigrationDetector \<Rightarrow> error option \<times> MigrationDetector" where
  "addToken_resume tokenAddress env d =
     (case fetchTokenData tokenAddress (ae_erc20 env) (ae_pair env) of
        Inl e \<Rightarrow> (Some e, d)
      | Inr tokenData \<Rightarrow>
          (let d1 = d\<lparr>monitoredTokens := Map_set tokenAddress tokenData (monitoredTokens d)\<rparr>
           in case calculateMigrationStatus (migrationConfig d) tokenData (ae_reading env) (ae_clock env) of
                Inl e \<Rightarrow> (Some e, d1)
              | Inr migrationStatus \<Rightarrow>
                  (None,
                   d1\<lparr>migrationStatuses :=
                         Map_set tokenAddress migrationStatus (migrationStatuses d1),
                       emitted := emitted d1 @ [TokenAdded tokenAddress]\<rparr>)))"

text \<open>
  Two calls of \<open>addToken\<close>, the second started while the first is suspended in
  \<open>fetchTokenData\<close>; then the first resumes, and after it the second.
\<close>

definition overlappingAdds ::
  "string \<Rightarrow> add_env \<Rightarrow> string \<Rightarrow> add_env \<Rightarrow> MigrationDetector \<Rightarrow> MigrationDetector" where
  "overlappingAdds x envx y envy d0 =
     (case addToken_begin x d0 of
        Some r \<Rightarrow> snd (addToken y envy d0)
      | None \<Rightarrow>
          (case addToken_begin y d0 of
             Some r \<Rightarrow> snd (addToken_resume x envx d0)
           | None \<Rightarrow> snd (addToken_resume y envy (snd (addToken_resume x envx d0)))))"

text \<open>\<open>removeToken\<close> (lines 1101-1118).\<close>

definition removeToken :: "string \<Rightarrow> MigrationDetector \<Rightarrow> MigrationDetector" where
  "removeToken tokenAddress d =
     d\<lparr>monitoredTokens := Map_delete tokenAddress (monitoredTokens d),
       migrationStatuses := Map_delete tokenAddress (migrationStatuses d),
       emitted := emitted d @ [TokenRemoved tokenAddress]\<rparr>"

section \<open>Migration detector: the monitoring tick\<close>

text \<open>
  \<open>waitForConfirmation\<close> (lines 1501-1513) reads the provider's block number, adds
  \<open>confirmationBlocks\<close> and polls once a second until the block number reaches that
  target. The list holds the results of the successive \<open>getBlockNumber\<close> calls, an error
  for a call that throws; a throw ends the wait (the function catches it and returns).
  The result is the readings left over, or \<open>None\<close> when the readings end before the target
  is reached: the wait does not return.
\<close>

fun pollBlockNumber :: "nat \<Rightarrow> (error + nat) list \<Rightarrow> (error + nat) list option" where
  "pollBlockNumber targetBlock [] = None"
| "pollBlockNumber targetBlock (Inl e # rs) = Some rs"
| "pollBlockNumber targetBlock (Inr b # rs) =
     (if b < targetBlock then pollBlockNumber targetBlock rs else Some rs)"

definition waitForConfirmation ::
  "MigrationDetectorConfig \<Rightarrow> (error + nat) list \<Rightarrow> (error + nat) list option" where
  "waitForConfirmation cfg rs =
     (case rs of
        [] \<Rightarrow> None
      | Inl e # rest \<Rightarrow> Some rest
      | Inr currentBlock # rest \<Rightarrow> pollBlockNumber (currentBlock + confirmationBlocks cfg) rest)"

text \<open>The placeholder of \<open>findMigrationTransaction\<close> (line 1519).\<close>

definition placeholderTxHash :: string where
  "placeholderTxHash = ''0x'' @ replicate 64 CHR ''0''"

text \<open>
  The part of \<open>handleMigrationEvent\<close> after the wait (lines 1470-1495): it reads the
  block number (a throw is caught at line 1496 and nothing changes), builds the event,
  sets the three fields of the token and emits \<open>migrationDetected\<close>. The handler holds
  the token object of the map entry; no other code writes a field of it, so writing the
  updated record back to the entry is the source's mutation of the object.
\<close>

definition handleMigrationEvent_afterWait ::
  "string \<Rightarrow> TokenData \<Rightarrow> MigrationStatus \<Rightarrow> error + nat \<Rightarrow> int \<Rightarrow> MigrationDetector
     \<Rightarrow> MigrationDetector" where
  "handleMigrationEvent_afterWait tokenAddress tokenData migrationStatus blockRead now d =
     (case blockRead of
        Inl e \<Rightarrow> d
      | Inr blockNumber \<Rightarrow>
          (let tokenData' = tokenData\<lparr>isMigrated := True,
                                       migrationBlock := Some blockNumber,
                                       migrationTxHash := Some placeholderTxHash\<rparr>;
               migrationEvent =
                 \<lparr> me_tokenAddress = tokenAddress,
                   me_tokenData = tokenData',
                   me_migrationStatus = migrationStatus,
                   me_migrationTxHash = placeholderTxHash,
                   me_migrationBlock = blockNumber,
                   me_timestamp = now,
                   me_preMigrationMarketCap = ms_currentMarketCap migrationStatus,
                   me_postMigrationMarketCap = ms_currentMarketCap migrationStatus,
                   me_liquidityAdded = ms_liquidityBNB migrationStatus \<rparr>
           in d\<lparr>monitoredTokens :=
                  (if Map_has tokenAddress (monitoredTokens d)
                   then Map_set tokenAddress tokenData' (monitoredTokens d)
                   else monitoredTokens d),
                emitted := emitted d @ [MigrationDetected migrationEvent]\<rparr>))"

text \<open>
  \<open>MigrationDetector.handleMigrationEvent\<close> (lines 1463-1499): the wait, then the part
  above with the next block-number reading. \<open>None\<close>: the handler does not return.
\<close>

definition MigrationDetector_handleMigrationEvent ::
  "string \<Rightarrow> TokenData \<Rightarrow> MigrationStatus \<Rightarrow> (error + nat) list \<Rightarrow> int \<Rightarrow> MigrationDetector
     \<Rightarrow> MigrationDetector option" where
  "MigrationDetector_handleMigrationEvent tokenAddress tokenData migrationStatus blocks now d =
     (case waitForConfirmation (migrationConfig d) blocks of
        None \<Rightarrow> None
      | Some [] \<Rightarrow> None
      | Some (blockRead # rest) \<Rightarrow>
          Some (handleMigrationEvent_afterWait tokenAddress tokenData migrationStatus blockRead now d))"

text \<open>What one call of \<open>checkTokenMigration\<close> reads from the outside.\<close>

record check_env =
  ce_reading :: "error + MarketData"
  ce_blocks :: "(error + nat) list"
  ce_clock :: int

text \<open>
  \<open>checkTokenMigration\<close> (lines 1437-1461), run to completion. A throw of
  \<open>calculateMigrationStatus\<close> is caught at line 1458 and leaves the state as it is.
\<close>

definition checkTokenMigration ::
  "string \<Rightarrow> TokenData \<Rightarrow> check_env \<Rightarrow> MigrationDetector \<Rightarrow> MigrationDetector option" where
  "checkTokenMigration tokenAddress tokenData env d =
     (case calculateMigrationStatus (migrationConfig d) tokenData (ce_reading env) (ce_clock env) of
        Inl e \<Rightarrow> Some d
      | Inr migrationStatus \<Rightarrow>
          (let d1 = d\<lparr>migrationStatuses :=
                        Map_set tokenAddress migrationStatus (migrationStatuses d)\<rparr>
           in if \<not> isMigrated tokenData
                 \<and> ms_currentMarketCap migrationStatus \<ge> migrationThreshold (migrationConfig d)
              then
                (case MigrationDetector_handleMigrationEvent tokenAddress tokenData
                        migrationStatus (ce_blocks env) (ce_clock env) d1 of
                   None \<Rightarrow> None
                 | Some d2 \<Rightarrow> Some (d2\<lparr>emitted := emitted d2 @ [StatusUpdate tokenAddress]\<rparr>))
              else Some (d1\<lparr>emitted := emitted d1 @ [StatusUpdate tokenAddress]\<rparr>)))"

text \<open>
  \<open>checkAllTokens\<close> (lines 1427-1435): the tokens of the map in order, each check awaited
  before the next. A check changes the entry of its own token only, so the entry the
  loop reaches is the one the map held when the tick began.
\<close>

fun checkTokens ::
  "(string \<times> TokenData) list \<Rightarrow> (string \<Rightarrow> check_env) \<Rightarrow> MigrationDetector
     \<Rightarrow> MigrationDetector option" where
  "checkTokens [] envs d = Some d"
| "checkTokens (e # rest) envs d =
     (case checkTokenMigration (fst e) (snd e) (envs (fst e)) d of
        None \<Rightarrow> None
      | Some d' \<Rightarrow> checkTokens rest envs d')"

definition checkAllTokens ::
  "(string \<Rightarrow> check_env) \<Rightarrow> MigrationDetector \<Rightarrow> MigrationDetector option" where
  "checkAllTokens envs d = checkTokens (monitoredTokens d) envs d"

text \<open>A run of monitoring ticks, each completed before the next begins.\<close>

fun runTicks :: "(string \<Rightarrow> check_env) list \<Rightarrow> MigrationDetector \<Rightarrow> MigrationDetector option" where
  "runTicks [] d = Some d"
| "runTicks (envs # ticks) d =
     (case checkAllTokens envs d of None \<Rightarrow> None | Some d' \<Rightarrow> runTicks ticks d')"

text \<open>
  The timer of \<open>startMonitoringLoop\<close> (lines 1417-1425) does not await the tick it starts:
  \<open>setInterval\<close> calls \<open>checkAllTokens\<close> every \<open>checkInterval\<close> milliseconds, and a tick
  suspended in \<open>waitForConfirmation\<close> leaves the event loop to the next one. The two
  functions below are the code of \<open>checkTokenMigration\<close> before and after that suspension.
  \<open>checkTokenMigration_begin\<close> runs up to the call of \<open>handleMigrationEvent\<close> (lines
  1440-1447): when the guard of line 1446 holds it gives the status the handler is called
  with, and the check is suspended; otherwise the check runs to its end.
  \<open>checkTokenMigration_resume\<close> is the handler from its wait on and the rest of the check
  (lines 1447-1457).
\<close>

definition checkTokenMigration_begin ::
  "string \<Rightarrow> TokenData \<Rightarrow> error + MarketData \<Rightarrow> int \<Rightarrow> MigrationDetector
     \<Rightarrow> MigrationDetector \<times> MigrationStatus option" where
  "checkTokenMigration_begin tokenAddress tokenData reading now d =
     (case calculateMigrationStatus (migrationConfig d) tokenData reading now of
        Inl e \<Rightarrow> (d, None)
      | Inr migrationStatus \<Rightarrow>
          (let d1 = d\<lparr>migrationStatuses :=
                        Map_set tokenAddress migrationStatus (migrationStatuses d)\<rparr>
           in if \<not> isMigrated tokenData
                 \<and> ms_currentMarketCap migrationStatus \<ge> migrationThreshold (migrationConfig d)
              then (d1, Some migrationStatus)
              else (d1\<lparr>emitted := emitted d1 @ [StatusUpdate tokenAddress]\<rparr>, None)))"

definition checkTokenMigration_resume ::
  "string \<Rightarrow> TokenData \<Rightarrow> MigrationStatus \<Rightarrow> (error + nat) list \<Rightarrow> int \<Rightarrow> MigrationDetector
     \<Rightarrow> MigrationDetector option" where
  "checkTokenMigration_resume tokenAddress tokenData migrationStatus blocks now d =
     (case MigrationDetector_handleMigrationEvent tokenAddress tokenData migrationStatus
             blocks now d of
        None \<Rightarrow> None
      | Some d2 \<Rightarrow> Some (d2\<lparr>emitted := emitted d2 @ [StatusUpdate tokenAddress]\<rparr>))"

text \<open>The \<open>migrationDetected\<close> events emitted for one token.\<close>

fun isMigrationDetectedFor :: "string \<Rightarrow> detector_event \<Rightarrow> bool" where
  "isMigrationDetectedFor a (MigrationDetected ev) = (me_tokenAddress ev = a)"
| "isMigrationDetectedFor a (TokenAdded b) = False"
| "isMigrationDetectedFor a (TokenRemoved b) = False"
| "isMigrationDetectedFor a (StatusUpdate b) = False"

definition migrationsDetected :: "string \<Rightarrow> MigrationDetector \<Rightarrow> nat" where
  "migrationsDetected a d = length (filter (isMigrationDetectedFor a) (emitted d))"

section \<open>Migration detector: runs of registrations\<close>

text \<open>
  A sequence of \<open>addToken\<close> and \<open>removeToken\<close> calls in which every call is awaited before
  the next is made, so that no two of them overlap; an error a call throws goes to the
  caller and the state stays as the call left it.
\<close>

datatype registration = Add string add_env | Remove string

fun register :: "registration \<Rightarrow> MigrationDetector \<Rightarrow> MigrationDetector" where
  "register (Add x env) d = snd (addToken x env d)"
| "register (Remove x) d = removeToken x d"

definition awaitedRegistrations ::
  "registration list \<Rightarrow> MigrationDetector \<Rightarrow> MigrationDetector" where
  "awaitedRegistrations rs d = foldl (\<lambda>d r. register r d) d rs"

text \<open>
  Concrete inputs: a token whose ERC-20 reads succeed, with no PancakeSwap pair and the
  mock bonding-curve reading, and a detector with room for one token that holds it.
\<close>

definition exampleAddEnv :: add_env where
  "exampleAddEnv =
     \<lparr> ae_erc20 = Inr (''Token'', ''TKN'', 18, 1000000), ae_pair = None,
       ae_reading = Inr bondingCurveMock, ae_clock = 0 \<rparr>"

definition oneTokenDetector :: MigrationDetector where
  "oneTokenDetector =
     snd (addToken ''0xA'' exampleAddEnv
            (newMigrationDetector (defaultMigrationConfig\<lparr>maxTokensToMonitor := 1\<rparr>)))"

section \<open>Migration detector: concrete runs\<close>

text \<open>
  The token that \<open>fetchTokenData\<close> builds from \<open>exampleAddEnv\<close>, and the detector with the
  default configuration (threshold 18, buffer 0.5, 3 confirmation blocks) that monitors it.
\<close>

definition exampleToken :: TokenData where
  "exampleToken =
     \<lparr> address = ''0xA'', name = ''Token'', symbol = ''TKN'', decimals = 18,
       totalSupply = 1000000, bondingCurveAddress = zeroAddress,
       pancakeSwapPairAddress = None, isMigrated = False,
       migrationBlock = None, migrationTxHash = None \<rparr>"

definition scenarioDetector :: MigrationDetector where
  "scenarioDetector =
     snd (addToken ''0xA'' exampleAddEnv (newMigrationDetector defaultMigrationConfig))"

text \<open>
  Block-number readings of one handler: 100 when the wait begins (the target is 103 for
  three confirmation blocks), then 101 and 103 at the polls, then 103 at line 1472.
\<close>

definition confirmedBlocks :: "(error + nat) list" where
  "confirmedBlocks = [Inr 100, Inr 101, Inr 103, Inr 103]"

text \<open>A tick in which the market data source reports the market cap \<open>c\<close> for every token.\<close>

definition capTick :: "real \<Rightarrow> string \<Rightarrow> check_env" where
  "capTick c =
     (\<lambda>a. \<lparr> ce_reading = Inr \<lparr> md_marketCap = c, md_liquidityBNB = c, md_progress = 43 / 50 \<rparr>,
            ce_blocks = confirmedBlocks, ce_clock = 0 \<rparr>)"

text \<open>
  The same detector with \<open>MIGRATION_THRESHOLD\<close> configured to 15, below the reading of
  15.5 that the source's \<open>getBondingCurveMarketCap\<close> returns.
\<close>

definition lowThresholdDetector :: MigrationDetector where
  "lowThresholdDetector =
     snd (addToken ''0xA'' exampleAddEnv
            (newMigrationDetector (defaultMigrationConfig\<lparr>migrationThreshold := 15\<rparr>)))"

text \<open>
  Two ticks of the timer for the token \<open>a\<close>, the second started (at time 2000) while the
  first (started at time 1000) is suspended in \<open>waitForConfirmation\<close>; then the handler of
  the first tick resumes, and after it the handler of the second. Each tick reads the
  token's entry when it starts.
\<close>

definition overlappingTicks ::
  "string \<Rightarrow> error + MarketData \<Rightarrow> (error + nat) list \<Rightarrow> MigrationDetector
     \<Rightarrow> MigrationDetector option" where
  "overlappingTicks a reading blocks d0 =
     (case Map_get a (monitoredTokens d0) of
        None \<Rightarrow> Some d0
      | Some td1 \<Rightarrow>
          (case checkTokenMigration_begin a td1 reading 1000 d0 of
             (d1, None) \<Rightarrow> Some d1
           | (d1, Some ms1) \<Rightarrow>
               (case Map_get a (monitoredTokens d1) of
                  None \<Rightarrow> Some d1
                | Some td2 \<Rightarrow>
                    (case checkTokenMigration_begin a td2 reading 2000 d1 of
                       (d2, None) \<Rightarrow> checkTokenMigration_resume a td1 ms1 blocks 10000 d2
                     | (d2, Some ms2) \<Rightarrow>
                         (case checkTokenMigration_resume a td1 ms1 blocks 10000 d2 of
                            None \<Rightarrow> None
                          | Some d3 \<Rightarrow> checkTokenMigration_resume a td2 ms2 blocks 11000 d3)))))"

section \<open>Transition logic: data and state\<close>

text \<open>\<open>TransitionStrategy\<close> (TransitionLogic.ts, lines 8-17); \<open>name\<close> is \<open>strategyName\<close> here.\<close>

record TransitionStrategy =
  strategyName :: string
  description :: string
  buyAmount :: int
  sellThreshold :: real
  stopLossThreshold :: real
  maxHoldTime :: int
  enablePartialSells :: bool
  partialSellPercentages :: "real list"

text \<open>\<open>TransitionConfig\<close> (lines 19-29).\<close>

record TransitionConfig =
  defaultStrategy :: string
  strategies :: "(string \<times> TransitionStrategy) list"
  maxConcurrentTrades :: int
  maxTotalExposure :: int
  enableRiskManagement :: bool
  enableProfitTaking :: bool
  enableStopLosses :: bool
  gasPriceBuffer :: real
  slippageBuffer :: real

text \<open>The two strategies of \<open>loadTransitionConfig\<close> (lines 480-501); amounts are in wei.\<close>

definition aggressive :: TransitionStrategy where
  "aggressive =
     \<lparr> strategyName = ''aggressive'', description = ''High risk, high reward strategy'',
       buyAmount = 10 ^ 17, sellThreshold = 50, stopLossThreshold = 20,
       maxHoldTime = 3600000, enablePartialSells = True,
       partialSellPercentages = [25, 50, 75] \<rparr>"

definition conservative :: TransitionStrategy where
  "conservative =
     \<lparr> strategyName = ''conservative'', description = ''Low risk, steady returns strategy'',
       buyAmount = 5 * 10 ^ 16, sellThreshold = 20, stopLossThreshold = 10,
       maxHoldTime = 1800000, enablePartialSells = False,
       partialSellPercentages = [] \<rparr>"

text \<open>
  \<open>loadTransitionConfig\<close> (lines 476-514): the arguments are the values read from the
  configuration, in the order of lines 504-512, the exposure already in wei.
\<close>

definition loadTransitionConfig ::
  "string \<Rightarrow> int \<Rightarrow> int \<Rightarrow> bool \<Rightarrow> bool \<Rightarrow> bool \<Rightarrow> real \<Rightarrow> real \<Rightarrow> TransitionConfig" where
  "loadTransitionConfig strat maxTrades maxExposure riskMgmt profitTaking stopLosses gasBuf slipBuf =
     \<lparr> defaultStrategy = strat,
       strategies = Map_set ''conservative'' conservative (Map_set ''aggressive'' aggressive []),
       maxConcurrentTrades = maxTrades,
       maxTotalExposure = maxExposure,
       enableRiskManagement = riskMgmt,
       enableProfitTaking = profitTaking,
       enableStopLosses = stopLosses,
       gasPriceBuffer = gasBuf,
       slippageBuffer = slipBuf \<rparr>"

text \<open>The configuration when nothing is configured: the defaults of lines 504-512.\<close>

definition defaultTransitionConfig :: TransitionConfig where
  "defaultTransitionConfig =
     loadTransitionConfig ''aggressive'' 5 (10 ^ 18) True True True (6 / 5) (1 / 20)"

datatype position_status = ACTIVE | CLOSED | STOPPED

text \<open>
  The reason of an exit: one of the fixed strings of \<open>checkExitConditions\<close>, or the
  template \<open>Partial sell at ${percentage}% profit\<close> with its percentage.
\<close>

datatype exit_reason = Reason string | PartialSell real

text \<open>
  A position id is the string \<open>pos_${Date.now()}_${++this.positionCounter}\<close>
  (line 473): the pair of the time and the counter.
\<close>

type_synonym position_id = "int \<times> nat"

text \<open>
  \<open>TradePosition\<close> (lines 31-50); \<open>id\<close> is \<open>positionId\<close> here. The last field is the
  property \<open>partialSells\<close> that \<open>checkExitConditions\<close> reads (line 383); the interface does
  not declare it and no code of the repository assigns it.
\<close>

record TradePosition =
  positionId :: position_id
  tokenAddress :: string
  tokenSymbol :: string
  entryPrice :: number
  entryAmount :: int
  tokenAmount :: int
  strategy :: string
  entryTime :: int
  currentPrice :: "number option"
  currentValue :: "int option"
  profitLoss :: "real option"
  profitLossPercent :: "number option"
  status :: position_status
  exitPrice :: "number option"
  exitTime :: "int option"
  exitReason :: "exit_reason option"
  gasUsed :: "int option"
  totalFees :: "int option"
  partialSells :: "real list option"

text \<open>The fields of \<open>SwapResult\<close> and \<open>MigrationSwapData\<close> (index.ts, lines 392-414) in use.\<close>

record SwapResult =
  sr_success :: bool
  sr_gasUsed :: "int option"
  sr_amountIn :: int
  sr_amountOut :: int
  sr_error :: "string option"

record MigrationSwapData =
  msd_liquidityBNB :: real
  msd_tokenPrice :: number

datatype transition_event = TransitionExecuted position_id | PositionClosed TradePosition

text \<open>
  The state of a \<open>TransitionLogic\<close> (lines 62-72). \<open>sellOrders\<close> is not a field of the
  source: it logs the calls of \<open>executeSellOrder\<close>, oldest first, so that the exit attempts
  the venue receives can be counted.
\<close>

record TransitionLogic =
  transitionConfig :: TransitionConfig
  activePositions :: "(position_id \<times> TradePosition) list"
  completedPositions :: "(position_id \<times> TradePosition) list"
  positionCounter :: nat
  sellOrders :: "position_id list"
  transitionEvents :: "transition_event list"

definition newTransitionLogic :: "TransitionConfig \<Rightarrow> TransitionLogic" where
  "newTransitionLogic cfg =
     \<lparr> transitionConfig = cfg, activePositions = [], completedPositions = [],
       positionCounter = 0, sellOrders = [], transitionEvents = [] \<rparr>"

section \<open>Transition logic: opening a position\<close>

text \<open>
  What one call of \<open>handleMigrationEvent\<close> reads from the outside: the result of
  \<open>getMigrationSwapData\<close>, the error of \<open>createTradingWallet\<close> if it throws, the result of
  \<open>executeBuyOrder\<close> (it throws when \<open>getAmountsOut\<close> does, and otherwise returns the
  swap's result), and the clock: one reading stands for the calls of \<open>Date.now()\<close> within
  the call.
\<close>

record buy_env =
  be_swapData :: "error + MigrationSwapData"
  be_wallet :: "error option"
  be_buy :: "error + SwapResult"
  be_clock :: int

text \<open>\<open>createPosition\<close> with \<open>generatePositionId\<close> (lines 265-293 and 472-474).\<close>

definition createPosition ::
  "MigrationEvent \<Rightarrow> SwapResult \<Rightarrow> TransitionStrategy \<Rightarrow> int \<Rightarrow> TransitionLogic
     \<Rightarrow> TradePosition \<times> TransitionLogic" where
  "createPosition migrationEvent buyResult strat now st =
     (let counter = Suc (positionCounter st);
          position =
            \<lparr> positionId = (now, counter),
              tokenAddress = me_tokenAddress migrationEvent,
              tokenSymbol = symbol (me_tokenData migrationEvent),
              entryPrice =
                double_times
                  (double_divide (Fin (ms_currentMarketCap (me_migrationStatus migrationEvent)))
                     (Number_of_bigint (sr_amountOut buyResult)))
                  (Fin (10 ^ 18)),
              entryAmount = sr_amountIn buyResult,
              tokenAmount = sr_amountOut buyResult,
              strategy = strategyName strat,
              entryTime = now,
              currentPrice = None, currentValue = None, profitLoss = None,
              profitLossPercent = None, status = ACTIVE, exitPrice = None, exitTime = None,
              exitReason = None, gasUsed = None, totalFees = None, partialSells = None \<rparr>
      in (position, st\<lparr>positionCounter := counter\<rparr>))"

text \<open>
  \<open>executeTransitionStrategy\<close> (lines 176-228): the flag is \<open>result.success\<close>. Every
  throw inside is caught at line 216 and gives the failure result.
\<close>

definition executeTransitionStrategy ::
  "MigrationEvent \<Rightarrow> buy_env \<Rightarrow> TransitionLogic \<Rightarrow> (position_id option) \<times> TransitionLogic" where
  "executeTransitionStrategy migrationEvent env st =
     (case Map_get (defaultStrategy (transitionConfig st)) (strategies (transitionConfig st)) of
        None \<Rightarrow> (None, st)
      | Some strat \<Rightarrow>
          (case be_wallet env of
             Some e \<Rightarrow> (None, st)
           | None \<Rightarrow>
               (case be_buy env of
                  Inl e \<Rightarrow> (None, st)
                | Inr buyResult \<Rightarrow>
                    if \<not> sr_success buyResult then (None, st)
                    else
                      (let (position, st1) =
                             createPosition migrationEvent buyResult strat (be_clock env) st
                       in (Some (positionId position),
                           st1\<lparr>activePositions :=
                                 Map_set (positionId position) position (activePositions st1)\<rparr>)))))"

text \<open>
  The liquidity test of line 157,
  \<open>liquidityBNB < strategies.get('default')?.buyAmount || BigInt(0)\<close>: the comparison
  binds tighter than \<open>||\<close>, a comparison with \<open>undefined\<close> is false, and \<open>false || 0n\<close> is
  falsy.
\<close>

definition insufficientLiquidity :: "TransitionConfig \<Rightarrow> MigrationSwapData \<Rightarrow> bool" where
  "insufficientLiquidity cfg migrationSwapData =
     (case Map_get ''default'' (strategies cfg) of
        None \<Rightarrow> False
      | Some strat \<Rightarrow> msd_liquidityBNB migrationSwapData < real_of_int (buyAmount strat))"

text \<open>
  \<open>TransitionLogic.handleMigrationEvent\<close> (lines 141-174), run from its call to its end
  with no other handler in between.
\<close>

definition TransitionLogic_handleMigrationEvent ::
  "MigrationEvent \<Rightarrow> buy_env \<Rightarrow> TransitionLogic \<Rightarrow> TransitionLogic" where
  "TransitionLogic_handleMigrationEvent migrationEvent env st =
     (if Map_size (activePositions st) \<ge> maxConcurrentTrades (transitionConfig st) then st
      else
        (case be_swapData env of
           Inl e \<Rightarrow> st
         | Inr migrationSwapData \<Rightarrow>
             if insufficientLiquidity (transitionConfig st) migrationSwapData then st
             else
               (case executeTransitionStrategy migrationEvent env st of
                  (Some pid, st1) \<Rightarrow>
                    st1\<lparr>transitionEvents := transitionEvents st1 @ [TransitionExecuted pid]\<rparr>
                | (None, st1) \<Rightarrow> st1)))"

text \<open>
  The handler is the listener of \<open>migrationDetected\<close> (line 95). \<open>emit\<close> calls it and goes on
  as soon as it suspends, which it does at \<open>await getMigrationSwapData\<close> (line 152), after
  the test of line 146 and long before \<open>activePositions.set\<close> (line 202, behind the awaits
  of lines 163, 191, 194 and 201). \<open>TransitionLogic_handleMigrationEvent_begin\<close> is the
  test of line 146: whether the handler goes on to that await.
  \<open>TransitionLogic_handleMigrationEvent_resume\<close> is the code from line 152 on, run with no
  other handler in between.
\<close>

definition TransitionLogic_handleMigrationEvent_begin :: "TransitionLogic \<Rightarrow> bool" where
  "TransitionLogic_handleMigrationEvent_begin st =
     (\<not> Map_size (activePositions st) \<ge> maxConcurrentTrades (transitionConfig st))"

definition TransitionLogic_handleMigrationEvent_resume ::
  "MigrationEvent \<Rightarrow> buy_env \<Rightarrow> TransitionLogic \<Rightarrow> TransitionLogic" where
  "TransitionLogic_handleMigrationEvent_resume migrationEvent env st =
     (case be_swapData env of
        Inl e \<Rightarrow> st
      | Inr migrationSwapData \<Rightarrow>
          if insufficientLiquidity (transitionConfig st) migrationSwapData then st
          else
            (case executeTransitionStrategy migrationEvent env st of
               (Some pid, st1) \<Rightarrow>
                 st1\<lparr>transitionEvents := transitionEvents st1 @ [TransitionExecuted pid]\<rparr>
             | (None, st1) \<Rightarrow> st1))"

text \<open>
  The handlers of two events, the second started while the first is suspended at line
  152; then the first resumes, and after it the second.
\<close>

definition overlappingEvents ::
  "MigrationEvent \<Rightarrow> buy_env \<Rightarrow> MigrationEvent \<Rightarrow> buy_env \<Rightarrow> TransitionLogic
     \<Rightarrow> TransitionLogic" where
  "overlappingEvents ev1 env1 ev2 env2 st0 =
     (if TransitionLogic_handleMigrationEvent_begin st0 then
        (if TransitionLogic_handleMigrationEvent_begin st0 then
           TransitionLogic_handleMigrationEvent_resume ev2 env2
             (TransitionLogic_handleMigrationEvent_resume ev1 env1 st0)
         else TransitionLogic_handleMigrationEvent_resume ev1 env1 st0)
      else TransitionLogic_handleMigrationEvent ev2 env2 st0)"

text \<open>
  The admission rule as the specification words it (section 4.6): the number of active
  positions is below the limit and the committed entry amounts plus the candidate amount
  stay within the exposure limit.
\<close>

definition canOpen_spec :: "TransitionConfig \<Rightarrow> TradePosition list \<Rightarrow> int \<Rightarrow> bool" where
  "canOpen_spec cfg active candidateAmount =
     (int (length active) < maxConcurrentTrades cfg
      \<and> sum_list (map entryAmount active) + candidateAmount \<le> maxTotalExposure cfg)"

section \<open>Transition logic: monitoring and exit\<close>

text \<open>
  What the monitoring of one position reads from the outside in one tick: the result of
  \<open>getMigrationSwapData\<close> for the price, the error of \<open>createTradingWallet\<close> if it throws,
  and the result of \<open>executeSellOrder\<close> (it throws when \<open>getAmountsOut\<close> does, and
  otherwise returns the swap's result; \<open>swapExactTokensForETH\<close> turns every failure of the
  swap, a timeout included, into a result with \<open>success: false\<close>).
\<close>

record exit_env =
  xe_price :: "error + MigrationSwapData"
  xe_wallet :: "error option"
  xe_sell :: "error + SwapResult"

text \<open>\<open>getCurrentTokenPrice\<close> (lines 461-470).\<close>

definition getCurrentTokenPrice :: "error + MigrationSwapData \<Rightarrow> number" where
  "getCurrentTokenPrice r =
     (case r of Inl e \<Rightarrow> Fin 0 | Inr migrationSwapData \<Rightarrow> msd_tokenPrice migrationSwapData)"

text \<open>
  \<open>updatePositionStatus\<close> (lines 335-355) for the price read, in double precision; the
  caller stores the position under its id (line 351). When the quotient of line 339 is
  not finite (the price is \<open>NaN\<close> or an infinity, or the product overflows), \<open>BigInt\<close>
  throws, the catch of line 352 logs the error and the position keeps the fields of the
  refresh before. The field \<open>profitLoss\<close> holds a finite number. A difference of line 342
  that is not finite needs an entry amount of about \<open>2\<^sup>1\<^sup>0\<^sup>2\<^sup>3\<close> wei or more, which no
  swap of 256-bit amounts returns (see \<open>updatePositionStatus_refreshes\<close> below); the
  definition leaves the position as it is there too.
\<close>

definition updatePositionStatus :: "TradePosition \<Rightarrow> number \<Rightarrow> TradePosition" where
  "updatePositionStatus position price =
     (case double_divide (double_times (Number_of_bigint (tokenAmount position)) price)
             (Fin (10 ^ 18)) of
        Fin q \<Rightarrow>
          (let val = \<lfloor>q\<rfloor>;
               entry = Number_of_bigint (entryAmount position);
               pl = double_minus (Number_of_bigint val) entry;
               plPercent = double_times (double_divide pl entry) (Fin 100)
           in case pl of
                Fin finitePl \<Rightarrow>
                  position\<lparr>currentPrice := Some price,
                            currentValue := Some val,
                            profitLoss := Some finitePl,
                            profitLossPercent := Some plPercent\<rparr>
              | PosInfinity \<Rightarrow> position
              | NegInfinity \<Rightarrow> position
              | NaN \<Rightarrow> position)
      | PosInfinity \<Rightarrow> position
      | NegInfinity \<Rightarrow> position
      | NaN \<Rightarrow> position)"

text \<open>
  The comparisons of \<open>checkExitConditions\<close> on \<open>profitLossPercent\<close>; with \<open>undefined\<close> on
  the left both are false.
\<close>

definition percent_lt :: "number option \<Rightarrow> real \<Rightarrow> bool" where
  "percent_lt x b = (case x of None \<Rightarrow> False | Some v \<Rightarrow> number_lt v b)"

definition percent_ge :: "number option \<Rightarrow> real \<Rightarrow> bool" where
  "percent_ge x b = (case x of None \<Rightarrow> False | Some v \<Rightarrow> number_ge v b)"

text \<open>\<open>!position.partialSells?.includes(percentage)\<close> (line 383).\<close>

definition notInPartialSells :: "TradePosition \<Rightarrow> real \<Rightarrow> bool" where
  "notInPartialSells position percentage =
     (case partialSells position of None \<Rightarrow> True | Some fired \<Rightarrow> percentage \<notin> set fired)"

text \<open>\<open>checkExitConditions\<close> (lines 357-394); \<open>None\<close> is \<open>{ exit: false }\<close>.\<close>

definition checkExitConditions :: "TransitionConfig \<Rightarrow> int \<Rightarrow> TradePosition \<Rightarrow> exit_reason option" where
  "checkExitConditions cfg now position =
     (case Map_get (strategy position) (strategies cfg) of
        None \<Rightarrow> Some (Reason ''Strategy not found'')
      | Some strat \<Rightarrow>
          if enableStopLosses cfg
             \<and> percent_lt (profitLossPercent position) (- stopLossThreshold strat)
          then Some (Reason ''Stop loss triggered'')
          else if enableProfitTaking cfg
                  \<and> percent_ge (profitLossPercent position) (sellThreshold strat)
          then Some (Reason ''Profit threshold reached'')
          else if now - entryTime position > maxHoldTime strat
          then Some (Reason ''Max hold time reached'')
          else if enablePartialSells strat then
            (case find (\<lambda>percentage. percent_ge (profitLossPercent position) percentage
                                     \<and> notInPartialSells position percentage)
                    (partialSellPercentages strat) of
               Some percentage \<Rightarrow> Some (PartialSell percentage)
             | None \<Rightarrow> None)
          else None)"

text \<open>\<open>gasUsed || BigInt(0)\<close>.\<close>

definition orZeroInt :: "int option \<Rightarrow> int" where
  "orZeroInt x = (case x of None \<Rightarrow> 0 | Some v \<Rightarrow> v)"

text \<open>
  \<open>executeExitStrategy\<close> (lines 396-429). A throw of \<open>createTradingWallet\<close> or of
  \<open>executeSellOrder\<close> is caught at line 426 and changes nothing. The position is the object
  stored in \<open>activePositions\<close>, so the assignment of line 424 shows in the map.
\<close>

definition executeExitStrategy ::
  "TradePosition \<Rightarrow> exit_reason \<Rightarrow> exit_env \<Rightarrow> int \<Rightarrow> TransitionLogic \<Rightarrow> TransitionLogic" where
  "executeExitStrategy position reason env now st =
     (case xe_wallet env of
        Some e \<Rightarrow> st
      | None \<Rightarrow>
          (let st1 = st\<lparr>sellOrders := sellOrders st @ [positionId position]\<rparr>
           in case xe_sell env of
                Inl e \<Rightarrow> st1
              | Inr sellResult \<Rightarrow>
                  if sr_success sellResult then
                    (let closed = position\<lparr>status := CLOSED,
                                            exitPrice := currentPrice position,
                                            exitTime := Some now,
                                            exitReason := Some reason,
                                            gasUsed := Some (orZeroInt (gasUsed position)
                                                             + orZeroInt (sr_gasUsed sellResult))\<rparr>
                     in st1\<lparr>activePositions := Map_delete (positionId position) (activePositions st1),
                            completedPositions :=
                              Map_set (positionId position) closed (completedPositions st1),
                            transitionEvents := transitionEvents st1 @ [PositionClosed closed]\<rparr>)
                  else
                    st1\<lparr>activePositions :=
                          Map_set (positionId position) (position\<lparr>status := STOPPED\<rparr>)
                            (activePositions st1)\<rparr>))"

text \<open>The body of the loop of \<open>monitorPositions\<close> (lines 321-328) for one entry of the map.\<close>

definition monitorPosition ::
  "exit_env \<Rightarrow> int \<Rightarrow> TransitionLogic \<Rightarrow> position_id \<times> TradePosition \<Rightarrow> TransitionLogic" where
  "monitorPosition env now st e =
     (let position = updatePositionStatus (snd e) (getCurrentTokenPrice (xe_price env));
          st1 = st\<lparr>activePositions :=
                      Map_set (positionId position) position (activePositions st)\<rparr>
      in case checkExitConditions (transitionConfig st) now position of
           None \<Rightarrow> st1
         | Some reason \<Rightarrow> executeExitStrategy position reason env now st1)"

text \<open>
  \<open>monitorPositions\<close> (lines 318-333): the entries of \<open>activePositions\<close> in order, with no
  test of the status. Within the loop an entry is replaced in place or deleted when its
  own turn comes, so the entries the loop visits are those the map held when it began.
\<close>

definition monitorPositions ::
  "(position_id \<Rightarrow> exit_env) \<Rightarrow> int \<Rightarrow> TransitionLogic \<Rightarrow> TransitionLogic" where
  "monitorPositions envs now st =
     foldl (\<lambda>s e. monitorPosition (envs (fst e)) now s e) st (activePositions st)"

text \<open>A run of monitoring ticks, each with its readings and its clock.\<close>

definition runMonitoring ::
  "((position_id \<Rightarrow> exit_env) \<times> int) list \<Rightarrow> TransitionLogic \<Rightarrow> TransitionLogic" where
  "runMonitoring ticks st = foldl (\<lambda>s tick. monitorPositions (fst tick) (snd tick) s) st ticks"

section \<open>Transition logic: statistics\<close>




section \<open>Transition logic: concrete inputs\<close>

text \<open>
  A position of the aggressive strategy as \<open>createPosition\<close> leaves it: 0.1 BNB paid
  (in wei) for \<open>10 ^ 18\<close> token units at time 0, so that a price of \<open>p\<close> wei values it at
  \<open>p\<close> wei.
\<close>

definition examplePosition :: TradePosition where
  "examplePosition =
     \<lparr> positionId = (0, 1), tokenAddress = ''0xA'', tokenSymbol = ''TKN'',
       entryPrice = Fin 18, entryAmount = 10 ^ 17, tokenAmount = 10 ^ 18,
       strategy = ''aggressive'', entryTime = 0,
       currentPrice = None, currentValue = None, profitLoss = None,
       profitLossPercent = None, status = ACTIVE, exitPrice = None, exitTime = None,
       exitReason = None, gasUsed = None, totalFees = None, partialSells = None \<rparr>"

text \<open>A transition logic with the default configuration that holds this position.\<close>

definition onePositionLogic :: TransitionLogic where
  "onePositionLogic =
     (newTransitionLogic defaultTransitionConfig)
       \<lparr>activePositions := [((0, 1), examplePosition)], positionCounter := 1\<rparr>"


text \<open>
  The readings of one monitoring tick for every position: the price, a wallet that is
  created, and a sell that returns the given result.
\<close>

definition priceTick :: "real \<Rightarrow> SwapResult \<Rightarrow> position_id \<Rightarrow> exit_env" where
  "priceTick price sellResult =
     (\<lambda>pid. \<lparr> xe_price = Inr \<lparr> msd_liquidityBNB = 20, msd_tokenPrice = Fin price \<rparr>,
              xe_wallet = None, xe_sell = Inr sellResult \<rparr>)"

text \<open>The result of \<open>swapExactTokensForETH\<close> for a swap that failed (index.ts, lines 607-615).\<close>

definition failedSwap :: "int \<Rightarrow> string \<Rightarrow> SwapResult" where
  "failedSwap amountIn message =
     \<lparr> sr_success = False, sr_gasUsed = None, sr_amountIn = amountIn, sr_amountOut = 0,
       sr_error = Some message \<rparr>"

definition successfulSwap :: "int \<Rightarrow> int \<Rightarrow> SwapResult" where
  "successfulSwap amountIn amountOut =
     \<lparr> sr_success = True, sr_gasUsed = Some 150000, sr_amountIn = amountIn,
       sr_amountOut = amountOut, sr_error = None \<rparr>"

text \<open>
  A \<open>migrationDetected\<close> event for the example token at a market cap of 18.2 and the
  readings of a buy that succeeds for the aggressive amount of 0.1 BNB; a second event,
  for another token, with the readings of such a buy a second later.
\<close>

definition exampleMigrationEvent :: MigrationEvent where
  "exampleMigrationEvent =
     \<lparr> me_tokenAddress = ''0xA'',
       me_tokenData = exampleToken\<lparr>isMigrated := True, migrationBlock := Some 103,
                                   migrationTxHash := Some placeholderTxHash\<rparr>,
       me_migrationStatus =
         \<lparr> ms_tokenAddress = ''0xA'', ms_currentMarketCap = 182 / 10,
           ms_migrationThreshold = 18, ms_distanceToMigration = 0,
           ms_migrationProbability = Fin 1, ms_estimatedTimeToMigration = Fin 0,
           ms_bondingCurveProgress = 43 / 50, ms_liquidityBNB = 182 / 10,
           ms_priceImpact = 0, ms_lastUpdated = 0 \<rparr>,
       me_migrationTxHash = placeholderTxHash, me_migrationBlock = 103, me_timestamp = 0,
       me_preMigrationMarketCap = 182 / 10, me_postMigrationMarketCap = 182 / 10,
       me_liquidityAdded = 182 / 10 \<rparr>"

definition exampleBuyEnv :: buy_env where
  "exampleBuyEnv =
     \<lparr> be_swapData = Inr \<lparr> msd_liquidityBNB = 182 / 10, msd_tokenPrice = Fin (10 ^ 17) \<rparr>,
       be_wallet = None,
       be_buy = Inr (successfulSwap (10 ^ 17) (10 ^ 18)),
       be_clock = 5000 \<rparr>"

definition secondMigrationEvent :: MigrationEvent where
  "secondMigrationEvent =
     exampleMigrationEvent
       \<lparr>me_tokenAddress := ''0xB'',
        me_tokenData := (me_tokenData exampleMigrationEvent)\<lparr>address := ''0xB''\<rparr>\<rparr>"

definition secondBuyEnv :: buy_env where
  "secondBuyEnv = exampleBuyEnv\<lparr>be_clock := 6000\<rparr>"

text \<open>
  The configuration with \<open>MAX_TOTAL_EXPOSURE=0.15\<close> (BNB) and the one with
  \<open>MAX_CONCURRENT_TRADES=1\<close>, everything else at its default.
\<close>

definition tightExposureConfig :: TransitionConfig where
  "tightExposureConfig =
     loadTransitionConfig ''aggressive'' 5 (15 * 10 ^ 16) True True True (6 / 5) (1 / 20)"

definition oneTradeConfig :: TransitionConfig where
  "oneTradeConfig =
     loadTransitionConfig ''aggressive'' 1 (10 ^ 18) True True True (6 / 5) (1 / 20)"

section \<open>Transition logic: predicates on states and readings\<close>

text \<open>
  The entries of a position map that the source builds: every position is stored under
  its own id, once.
\<close>

definition wellFormedPositions :: "(position_id \<times> TradePosition) list \<Rightarrow> bool" where
  "wellFormedPositions m =
     (distinct (map fst m) \<and> list_all (\<lambda>e. positionId (snd e) = fst e) m)"

text \<open>The wallet is created and the sell returns a result with \<open>success: false\<close>.\<close>

definition sellFails :: "exit_env \<Rightarrow> bool" where
  "sellFails env =
     (xe_wallet env = None
      \<and> (case xe_sell env of Inl e \<Rightarrow> False | Inr sellResult \<Rightarrow> \<not> sr_success sellResult))"

text \<open>With the price of these readings, the exit decision for the position is an exit.\<close>

definition exitDue :: "TransitionConfig \<Rightarrow> int \<Rightarrow> TradePosition \<Rightarrow> exit_env \<Rightarrow> bool" where
  "exitDue cfg now position env =
     (checkExitConditions cfg now
        (updatePositionStatus position (getCurrentTokenPrice (xe_price env))) \<noteq> None)"

text \<open>
  In every tick of the run the sell of the position \<open>k\<close> fails and its exit is due, for the
  position as the ticks before have left it: refreshed at the price of each tick and, its
  exit having failed, with the status \<open>STOPPED\<close>.
\<close>

fun everyExitFails ::
  "TransitionConfig \<Rightarrow> position_id \<Rightarrow> ((position_id \<Rightarrow> exit_env) \<times> int) list
     \<Rightarrow> TradePosition \<Rightarrow> bool" where
  "everyExitFails cfg k [] position = True"
| "everyExitFails cfg k (tick # ticks) position =
     (sellFails (fst tick k) \<and> exitDue cfg (snd tick) position (fst tick k)
      \<and> everyExitFails cfg k ticks
            ((updatePositionStatus position (getCurrentTokenPrice (xe_price (fst tick k))))
               \<lparr>status := STOPPED\<rparr>))"

text \<open>
  A monitoring tick at the given time in which every position is quoted at the given
  price and every sell fails with \<open>Timeout\<close>.
\<close>

definition timeoutTick :: "real \<Rightarrow> int \<Rightarrow> (position_id \<Rightarrow> exit_env) \<times> int" where
  "timeoutTick price now = (priceTick price (failedSwap (10 ^ 18) ''Timeout''), now)"

section \<open>Migration detector: the invariant of completed ticks\<close>

text \<open>
  Every address is stored once, has at most one \<open>migrationDetected\<close> event, and has none
  while its token is stored and not marked migrated.
\<close>

definition emittedOnceInvariant :: "MigrationDetector \<Rightarrow> bool" where
  "emittedOnceInvariant d =
     (distinct (map fst (monitoredTokens d))
      \<and> (\<forall>a. migrationsDetected a d \<le> 1)
      \<and> (\<forall>a td. Map_get a (monitoredTokens d) = Some td \<and> \<not> isMigrated td
             \<longrightarrow> migrationsDetected a d = 0))"

chapter \<open>Properties\<close>

section \<open>JavaScript maps\<close>

lemma Map_has_Map_set: "Map_has k (Map_set k v m)"
  by (induction m) (auto simp: Map_has_def)

lemma keys_Map_set:
  "map fst (Map_set k v m) = (if Map_has k m then map fst m else map fst m @ [k])"
  by (induction m) (auto simp: Map_has_def)

lemma length_Map_set:
  "length (Map_set k v m) = (if Map_has k m then length m else Suc (length m))"
  using keys_Map_set [of k v m] by (metis length_map length_append_singleton)

lemma distinct_Map_set: "distinct (map fst m) \<Longrightarrow> distinct (map fst (Map_set k v m))"
  by (simp add: keys_Map_set Map_has_def)

lemma distinct_Map_delete: "distinct (map fst m) \<Longrightarrow> distinct (map fst (Map_delete k m))"
  by (simp add: Map_delete_def distinct_map_filter)

lemma length_Map_delete: "length (Map_delete k m) \<le> length m"
  by (simp add: Map_delete_def)

lemma entries_for_distinct:
  "distinct (map fst m) \<Longrightarrow> entries_for k m = (if Map_has k m then 1 else 0)"
  by (induction m) (auto simp: entries_for_def Map_has_def image_iff)

lemma Map_get_Map_set: "Map_get k (Map_set k' v m) = (if k = k' then Some v else Map_get k m)"
  by (induction m) (auto simp: Map_get_def)

lemma Map_get_Map_delete: "Map_get k (Map_delete k' m) = (if k = k' then None else Map_get k m)"
  by (induction m) (auto simp: Map_get_def Map_delete_def)

lemma Map_has_iff_get: "Map_has a m = (Map_get a m \<noteq> None)"
  by (simp add: Map_has_def Map_get_def map_of_eq_None_iff)

lemma keys_Map_set_has: "Map_has a m \<Longrightarrow> map fst (Map_set a v m) = map fst m"
  by (induction m) (auto simp: Map_has_def)

section \<open>Double-precision arithmetic\<close>

text \<open>The equations that evaluate a rounding at a given number.\<close>

lemmas double_eval = double_def doubleExponent_def roundAt_def floorLog2_def compute_bitlen
  roundHalfEven_def Let_def double_minus_def

lemma floorLog2_bounds:
  assumes "0 < x"
  shows "2 powi floorLog2 x \<le> x \<and> x < 2 powi (floorLog2 x + 1)"
proof (cases "1 \<le> x")
  case True
  define n where "n = \<lfloor>x\<rfloor>"
  from True have n: "0 < n" unfolding n_def by linarith
  from bitlen_bounds [OF n] have lo: "2 ^ nat (bitlen n - 1) \<le> n" and hi: "n < 2 ^ nat (bitlen n)"
    by simp_all
  from n have b1: "1 \<le> bitlen n" by (simp add: bitlen_alt_def)
  have e: "floorLog2 x = bitlen n - 1" using True by (simp add: floorLog2_def n_def)
  have "2 powi (bitlen n - 1) = (2::real) ^ nat (bitlen n - 1)"
    using b1 by (simp add: power_int_nonneg_exp)
  also have "\<dots> = real_of_int (2 ^ nat (bitlen n - 1))" by simp
  also have "\<dots> \<le> real_of_int n" using lo by (simp only: of_int_le_iff)
  also have "\<dots> \<le> x" unfolding n_def by linarith
  finally have A: "2 powi floorLog2 x \<le> x" unfolding e .
  from hi have "n + 1 \<le> 2 ^ nat (bitlen n)" by linarith
  then have "real_of_int (n + 1) \<le> real_of_int (2 ^ nat (bitlen n))" by (simp only: of_int_le_iff)
  moreover have "x < real_of_int (n + 1)" unfolding n_def by linarith
  ultimately have "x < (2::real) ^ nat (bitlen n)" by simp
  also have "\<dots> = 2 powi (bitlen n)" using b1 by (simp add: power_int_nonneg_exp)
  finally have B: "x < 2 powi (floorLog2 x + 1)" unfolding e by simp
  from A B show ?thesis ..
next
  case False
  with assms have x1: "x < 1" by simp
  define m where "m = \<lceil>1 / x\<rceil> - 1"
  have y: "1 < 1 / x" using assms x1 by simp
  then have m: "0 < m" unfolding m_def by linarith
  from bitlen_bounds [OF m] have lo: "2 ^ nat (bitlen m - 1) \<le> m" and hi: "m < 2 ^ nat (bitlen m)"
    by simp_all
  from m have b1: "1 \<le> bitlen m" by (simp add: bitlen_alt_def)
  have e: "floorLog2 x = - bitlen m" using False by (simp add: floorLog2_def m_def)
  from hi have "m + 1 \<le> 2 ^ nat (bitlen m)" by linarith
  then have "real_of_int (m + 1) \<le> real_of_int (2 ^ nat (bitlen m))" by (simp only: of_int_le_iff)
  moreover have "1 / x \<le> real_of_int (m + 1)" unfolding m_def by simp
  ultimately have "1 / x \<le> (2::real) ^ nat (bitlen m)" by simp
  then have "1 / 2 ^ nat (bitlen m) \<le> x"
    using assms by (simp add: field_simps)
  moreover have "2 powi (- bitlen m) = 1 / (2::real) ^ nat (bitlen m)"
    using b1 by (simp add: power_int_def field_simps)
  ultimately have A: "2 powi floorLog2 x \<le> x" unfolding e by simp
  have "real_of_int (2 ^ nat (bitlen m - 1)) \<le> real_of_int m" using lo by (simp only: of_int_le_iff)
  then have "(2::real) ^ nat (bitlen m - 1) \<le> real_of_int m" by simp
  moreover have "real_of_int m < 1 / x" unfolding m_def by linarith
  ultimately have "(2::real) ^ nat (bitlen m - 1) < 1 / x" by linarith
  then have "x < 1 / 2 ^ nat (bitlen m - 1)"
    using assms by (simp add: field_simps)
  moreover have "2 powi (- bitlen m + 1) = 1 / (2::real) ^ nat (bitlen m - 1)"
  proof -
    have "- bitlen m + 1 = - (bitlen m - 1)" by simp
    then have "(2::real) powi (- bitlen m + 1) = inverse (2 powi (bitlen m - 1))"
      by (simp only: power_int_minus)
    also have "\<dots> = 1 / 2 ^ nat (bitlen m - 1)"
      using b1 by (simp add: power_int_nonneg_exp field_simps)
    finally show ?thesis .
  qed
  ultimately have B: "x < 2 powi (floorLog2 x + 1)" unfolding e by simp
  from A B show ?thesis ..
qed


lemma roundHalfEven_of_int [simp]: "roundHalfEven (real_of_int n) = n"
  by (simp add: roundHalfEven_def)

lemma roundHalfEven_mono: "z \<le> w \<Longrightarrow> roundHalfEven z \<le> roundHalfEven w"
proof -
  assume le: "z \<le> w"
  then have fl: "\<lfloor>z\<rfloor> \<le> \<lfloor>w\<rfloor>" by (rule floor_mono)
  have a: "roundHalfEven z \<le> \<lfloor>z\<rfloor> + 1" by (simp add: roundHalfEven_def Let_def)
  have b: "\<lfloor>w\<rfloor> \<le> roundHalfEven w" by (simp add: roundHalfEven_def Let_def)
  show ?thesis
  proof (cases "\<lfloor>z\<rfloor> = \<lfloor>w\<rfloor>")
    case True
    with le show ?thesis by (auto simp add: roundHalfEven_def Let_def)
  next
    case False
    with fl have "\<lfloor>z\<rfloor> + 1 \<le> \<lfloor>w\<rfloor>" by linarith
    with a b show ?thesis by linarith
  qed
qed

lemma roundHalfEven_uminus: "roundHalfEven (- z) = - roundHalfEven z"
proof (cases "z = real_of_int \<lfloor>z\<rfloor>")
  case True
  then obtain n where "z = real_of_int n" by blast
  then have "- z = real_of_int (- n)" by simp
  then show ?thesis using \<open>z = real_of_int n\<close> by (simp only: roundHalfEven_of_int)
next
  case False
  then have c: "\<lceil>z\<rceil> = \<lfloor>z\<rfloor> + 1" by (metis ceiling_altdef)
  have f: "\<lfloor>- z\<rfloor> = - \<lfloor>z\<rfloor> - 1" using c by (simp add: floor_minus)
  show ?thesis
    unfolding roundHalfEven_def Let_def f
    by (auto simp add: field_simps)
qed

lemma number_le_uminus: "number_le (number_uminus a) (number_uminus b) = number_le b a"
  by (cases a; cases b) simp_all

lemma doubleExponent_uminus: "doubleExponent (- x) = doubleExponent x"
  by (simp add: doubleExponent_def)

lemma roundAt_uminus: "roundAt e (- x) = - roundAt e x"
  by (simp add: roundAt_def roundHalfEven_uminus)

lemma double_uminus: "double (- x) = number_uminus (double x)"
  by (simp add: double_def doubleExponent_uminus roundAt_uminus Let_def)



lemma roundAt_mono: "x \<le> y \<Longrightarrow> roundAt e x \<le> roundAt e y"
proof -
  assume "x \<le> y"
  then have "x / 2 powi e \<le> y / 2 powi e" by (simp add: divide_right_mono)
  then have "roundHalfEven (x / 2 powi e) \<le> roundHalfEven (y / 2 powi e)"
    by (rule roundHalfEven_mono)
  then show ?thesis by (simp add: roundAt_def)
qed


lemma roundAt_exact: "roundAt e (real_of_int n * 2 powi e) = real_of_int n * 2 powi e"
  by (simp add: roundAt_def)

lemma roundHalfEven_0 [simp]: "roundHalfEven 0 = 0"
  by (simp add: roundHalfEven_def)

lemma roundAt_zero [simp]: "roundAt e 0 = 0"
  by (simp add: roundAt_def)

lemma roundAt_nonneg: "0 \<le> x \<Longrightarrow> 0 \<le> roundAt e x"
  using roundAt_mono [of 0 x e] by simp

lemma positive_upper:
  assumes "0 < x"
  shows "roundAt (doubleExponent x) x \<le> 2 powi (doubleExponent x + 53)"
proof -
  let ?e = "doubleExponent x"
  have "x < 2 powi (floorLog2 x + 1)" using floorLog2_bounds [OF assms] by simp
  also have "\<dots> \<le> 2 powi (?e + 53)"
    using assms by (intro power_int_increasing) (simp_all add: doubleExponent_def)
  finally have "x \<le> 2 powi (?e + 53)" by simp
  then have "roundAt ?e x \<le> roundAt ?e (2 powi (?e + 53))" by (rule roundAt_mono)
  also have "(2::real) powi (?e + 53) = real_of_int (2 ^ 53) * 2 powi ?e"
    by (simp add: power_int_add)
  also have "roundAt ?e \<dots> = real_of_int (2 ^ 53) * 2 powi ?e" by (rule roundAt_exact)
  also have "\<dots> = 2 powi (?e + 53)" by (simp add: power_int_add)
  finally show ?thesis .
qed




lemma double_alt:
  "double x =
     (let r = roundAt (doubleExponent x) x
      in if 2 ^ 1024 \<le> r then PosInfinity
         else if r \<le> - (2 ^ 1024) then NegInfinity
         else Fin r)"
  by (simp add: double_def Let_def)


lemma double_not_NaN [simp]: "double x \<noteq> NaN"
  by (simp add: double_alt Let_def)


lemma double_0 [simp]: "double 0 = Fin 0"
  by (simp add: double_def)

lemma double_1 [simp]: "double 1 = Fin 1"
  by (simp add: double_eval)


lemma double_Fin_bound: "double x = Fin r \<Longrightarrow> \<bar>r\<bar> < 2 ^ 1024"
  by (auto simp add: double_alt Let_def split: if_splits)

lemma double_finite_upto:
  assumes "\<bar>x\<bar> \<le> 2 ^ n" and "n \<le> 1022"
  shows "\<exists>r. double x = Fin r \<and> \<bar>r\<bar> \<le> 2 ^ Suc n"
proof -
  have pos: "roundAt (doubleExponent y) y \<le> 2 ^ Suc n" if y: "0 < y" "y \<le> 2 ^ n" for y
  proof -
    have "2 powi floorLog2 y \<le> y" using floorLog2_bounds [OF y(1)] by simp
    also have "\<dots> \<le> 2 powi int n" using y(2) by (simp add: power_int_def)
    finally have le: "(2::real) powi floorLog2 y \<le> 2 powi int n" .
    have "floorLog2 y \<le> int n"
    proof (rule ccontr)
      assume "\<not> floorLog2 y \<le> int n"
      then have "int n < floorLog2 y" by simp
      then have "(2::real) powi int n < 2 powi floorLog2 y"
        by (rule power_int_strict_increasing) simp
      with le show False by simp
    qed
    then have "doubleExponent y + 53 \<le> int n + 1"
      using assms(2) y(1) by (simp add: doubleExponent_def)
    then have "(2::real) powi (doubleExponent y + 53) \<le> 2 powi (int n + 1)"
      by (intro power_int_increasing) simp_all
    also have "\<dots> = 2 ^ Suc n" by (simp add: power_int_add)
    finally show ?thesis using positive_upper [OF y(1)] by simp
  qed
  have big: "(2::real) ^ Suc n < 2 ^ 1024"
    using assms(2) by (intro power_strict_increasing) simp_all
  consider "x = 0" | "0 < x" | "x < 0" by linarith
  then show ?thesis
  proof cases
    case 1
    then show ?thesis by simp
  next
    case 2
    with assms have "roundAt (doubleExponent x) x \<le> 2 ^ Suc n" by (intro pos) simp_all
    moreover have "0 \<le> roundAt (doubleExponent x) x" using 2 by (simp add: roundAt_nonneg)
    ultimately show ?thesis using big by (simp add: double_alt Let_def)
  next
    case 3
    with assms have "roundAt (doubleExponent (- x)) (- x) \<le> 2 ^ Suc n" by (intro pos) simp_all
    moreover have "0 \<le> roundAt (doubleExponent (- x)) (- x)" using 3 by (simp add: roundAt_nonneg)
    ultimately show ?thesis using big
      by (simp add: double_alt Let_def doubleExponent_uminus roundAt_uminus)
  qed
qed

section \<open>The prediction functions\<close>

















section \<open>Registration\<close>

lemma addToken_returns_has:
  "addToken x env d = (None, d') \<Longrightarrow> Map_has x (monitoredTokens d')"
  by (auto simp: addToken_def Let_def Map_has_Map_set split: if_splits sum.splits)

lemma addToken_distinct:
  "distinct (map fst (monitoredTokens d)) \<Longrightarrow>
   distinct (map fst (monitoredTokens (snd (addToken x env d))))"
  by (auto simp: addToken_def Let_def distinct_Map_set split: if_splits sum.splits)

lemma addToken_config: "migrationConfig (snd (addToken x env d)) = migrationConfig d"
  by (auto simp: addToken_def Let_def split: if_splits sum.splits)

lemma addToken_size:
  "Map_size (monitoredTokens d) \<le> maxTokensToMonitor (migrationConfig d) \<Longrightarrow>
   Map_size (monitoredTokens (snd (addToken x env d))) \<le> maxTokensToMonitor (migrationConfig d)"
  by (auto simp: addToken_def Let_def Map_size_def length_Map_set split: if_splits sum.splits)

lemma register_inv:
  "Map_size (monitoredTokens d) \<le> maxTokensToMonitor (migrationConfig d) \<Longrightarrow>
   Map_size (monitoredTokens (register r d)) \<le> maxTokensToMonitor (migrationConfig (register r d))
   \<and> migrationConfig (register r d) = migrationConfig d"
proof (cases r)
  case (Add x env)
  assume "Map_size (monitoredTokens d) \<le> maxTokensToMonitor (migrationConfig d)"
  then show ?thesis using Add addToken_size [of d x env] by (simp add: addToken_config)
next
  case (Remove x)
  assume "Map_size (monitoredTokens d) \<le> maxTokensToMonitor (migrationConfig d)"
  then show ?thesis using Remove length_Map_delete [of x "monitoredTokens d"]
    by (simp add: removeToken_def Map_size_def)
qed

lemma registrations_inv:
  "Map_size (monitoredTokens d) \<le> maxTokensToMonitor (migrationConfig d) \<Longrightarrow>
   Map_size (monitoredTokens (awaitedRegistrations rs d)) \<le> maxTokensToMonitor (migrationConfig d)
   \<and> migrationConfig (awaitedRegistrations rs d) = migrationConfig d"
proof (induction rs arbitrary: d)
  case Nil
  then show ?case by (simp add: awaitedRegistrations_def)
next
  case (Cons r rs)
  from register_inv [OF Cons.prems, of r]
  have a: "Map_size (monitoredTokens (register r d)) \<le> maxTokensToMonitor (migrationConfig (register r d))"
    and b: "migrationConfig (register r d) = migrationConfig d" by blast+
  have c: "awaitedRegistrations (r # rs) d = awaitedRegistrations rs (register r d)"
    by (simp add: awaitedRegistrations_def)
  from Cons.IH [OF a] show ?case unfolding c b .
qed

text \<open>
  Registration by calls that do not overlap is idempotent and capacity-limited. When
  \<open>addToken x\<close>, run to its end, returns without an error, a second \<open>addToken x\<close> returns
  without an error and leaves the state as it is, and the map holds exactly one entry for
  \<open>x\<close>. For an address that is not monitored, when the map already holds
  \<open>maxTokensToMonitor\<close> entries (or more) the call throws the capacity error and leaves the
  state as it is. From the empty detector, with a limit \<open>\<ge> 0\<close>, no sequence of additions and
  removals in which every call is awaited before the next is made makes the map larger
  than the limit.
\<close>

theorem addToken_idempotent_and_capped:
  "(distinct (map fst (monitoredTokens d)) \<and> addToken x env d = (None, d') \<longrightarrow>
      addToken x env' d' = (None, d') \<and> entries_for x (monitoredTokens d') = 1)
   \<and> (\<not> Map_has x (monitoredTokens d)
        \<and> Map_size (monitoredTokens d) \<ge> maxTokensToMonitor (migrationConfig d) \<longrightarrow>
      addToken x env d = (Some (MonitoringLimitReached (maxTokensToMonitor (migrationConfig d))), d))
   \<and> (0 \<le> maxTokensToMonitor cfg \<longrightarrow>
      Map_size (monitoredTokens (awaitedRegistrations rs (newMigrationDetector cfg)))
        \<le> maxTokensToMonitor cfg)"
proof (intro conjI impI)
  assume a: "distinct (map fst (monitoredTokens d)) \<and> addToken x env d = (None, d')"
  then have has: "Map_has x (monitoredTokens d')" using addToken_returns_has by blast
  from a have "distinct (map fst (monitoredTokens (snd (addToken x env d))))"
    using addToken_distinct by blast
  with a have dist: "distinct (map fst (monitoredTokens d'))" by simp
  show "addToken x env' d' = (None, d')" using has by (simp add: addToken_def)
  show "entries_for x (monitoredTokens d') = 1" using has dist by (simp add: entries_for_distinct)
next
  assume "\<not> Map_has x (monitoredTokens d)
        \<and> Map_size (monitoredTokens d) \<ge> maxTokensToMonitor (migrationConfig d)"
  then show "addToken x env d = (Some (MonitoringLimitReached (maxTokensToMonitor (migrationConfig d))), d)"
    by (simp add: addToken_def)
next
  assume "0 \<le> maxTokensToMonitor cfg"
  then have "Map_size (monitoredTokens (newMigrationDetector cfg))
               \<le> maxTokensToMonitor (migrationConfig (newMigrationDetector cfg))"
    by (simp add: newMigrationDetector_def Map_size_def)
  from registrations_inv [OF this, of rs]
  show "Map_size (monitoredTokens (awaitedRegistrations rs (newMigrationDetector cfg))) \<le> maxTokensToMonitor cfg"
    by (simp add: newMigrationDetector_def)
qed

lemma oneTokenDetector_added:
  "addToken ''0xA'' exampleAddEnv
     (newMigrationDetector (defaultMigrationConfig\<lparr>maxTokensToMonitor := 1\<rparr>))
   = (None, oneTokenDetector)"
  by (simp add: oneTokenDetector_def addToken_def newMigrationDetector_def Map_has_def
      Map_size_def defaultMigrationConfig_def exampleAddEnv_def fetchTokenData_def
      calculateMigrationStatus_def Let_def)

lemma oneTokenDetector_tokens:
  "map fst (monitoredTokens oneTokenDetector) = [''0xA'']
   \<and> length (monitoredTokens oneTokenDetector) = 1
   \<and> migrationConfig oneTokenDetector = defaultMigrationConfig\<lparr>maxTokensToMonitor := 1\<rparr>"
  by (simp add: oneTokenDetector_def addToken_def newMigrationDetector_def Map_has_def
      Map_size_def defaultMigrationConfig_def exampleAddEnv_def fetchTokenData_def
      calculateMigrationStatus_def Let_def)

theorem addToken_idempotent_and_capped_witness:
  "addToken ''0xA'' exampleAddEnv oneTokenDetector = (None, oneTokenDetector)
   \<and> entries_for ''0xA'' (monitoredTokens oneTokenDetector) = 1
   \<and> addToken ''0xB'' exampleAddEnv oneTokenDetector
       = (Some (MonitoringLimitReached 1), oneTokenDetector)
   \<and> Map_size (monitoredTokens
        (awaitedRegistrations [Add ''0xA'' exampleAddEnv, Add ''0xB'' exampleAddEnv]
           (newMigrationDetector (defaultMigrationConfig\<lparr>maxTokensToMonitor := 1\<rparr>)))) \<le> 1"
  using addToken_idempotent_and_capped
    [where d = "newMigrationDetector (defaultMigrationConfig\<lparr>maxTokensToMonitor := 1\<rparr>)"
       and x = "''0xA''" and env = exampleAddEnv and d' = oneTokenDetector
       and env' = exampleAddEnv
       and cfg = "defaultMigrationConfig\<lparr>maxTokensToMonitor := 1\<rparr>"
       and rs = "[Add ''0xA'' exampleAddEnv, Add ''0xB'' exampleAddEnv]"]
    addToken_idempotent_and_capped
    [where d = oneTokenDetector and x = "''0xB''" and env = exampleAddEnv]
    oneTokenDetector_added oneTokenDetector_tokens
  by (simp add: newMigrationDetector_def Map_has_def Map_size_def defaultMigrationConfig_def)

lemma addToken_phases:
  "addToken x env d =
     (case addToken_begin x d of Some r \<Rightarrow> (r, d) | None \<Rightarrow> addToken_resume x env d)"
  by (simp add: addToken_def addToken_begin_def addToken_resume_def)

text \<open>
  Claim C8 at two overlapping calls. With \<open>MAX_TOKENS_TO_MONITOR=1\<close> and an empty map,
  \<open>addToken('0xA')\<close> and \<open>addToken('0xB')\<close> are called one right after the other, neither
  awaited. Both pass the test of line 1071 while the map is empty, because the first is
  suspended in \<open>fetchTokenData\<close> and stores its token only afterwards (line 1079): the map
  ends with two entries against a limit of one.
\<close>

theorem overlapping_addToken_exceeds_limit:
  "maxTokensToMonitor (defaultMigrationConfig\<lparr>maxTokensToMonitor := 1\<rparr>) = 1
   \<and> map fst
        (monitoredTokens
           (overlappingAdds ''0xA'' exampleAddEnv ''0xB'' exampleAddEnv
              (newMigrationDetector (defaultMigrationConfig\<lparr>maxTokensToMonitor := 1\<rparr>))))
       = [''0xA'', ''0xB'']
   \<and> Map_size
        (monitoredTokens
           (overlappingAdds ''0xA'' exampleAddEnv ''0xB'' exampleAddEnv
              (newMigrationDetector (defaultMigrationConfig\<lparr>maxTokensToMonitor := 1\<rparr>))))
       = 2"
  by (simp add: overlappingAdds_def addToken_begin_def addToken_resume_def
      newMigrationDetector_def Map_has_def Map_size_def defaultMigrationConfig_def
      exampleAddEnv_def fetchTokenData_def calculateMigrationStatus_def Let_def)

section \<open>The monitoring tick\<close>

lemma pollBlockNumber_returns:
  "(\<exists>rest. pollBlockNumber target rs = Some rest)
     = (\<exists>r \<in> set rs. case r of Inl e \<Rightarrow> True | Inr b \<Rightarrow> target \<le> b)"
  by (induction target rs rule: pollBlockNumber.induct) auto

lemma checkTokenMigration_phases:
  "checkTokenMigration a td env d =
     (case checkTokenMigration_begin a td (ce_reading env) (ce_clock env) d of
        (d1, None) \<Rightarrow> Some d1
      | (d1, Some ms) \<Rightarrow> checkTokenMigration_resume a td ms (ce_blocks env) (ce_clock env) d1)"
  by (simp add: checkTokenMigration_def checkTokenMigration_begin_def
      checkTokenMigration_resume_def Let_def split: sum.splits)

lemma scenarioDetector_eq:
  "scenarioDetector =
     \<lparr> migrationConfig = defaultMigrationConfig,
       monitoredTokens = [(''0xA'', exampleToken)],
       migrationStatuses = migrationStatuses scenarioDetector,
       emitted = [TokenAdded ''0xA''] \<rparr>"
  by (simp add: scenarioDetector_def addToken_def newMigrationDetector_def Map_has_def
      Map_size_def defaultMigrationConfig_def exampleAddEnv_def fetchTokenData_def
      calculateMigrationStatus_def Let_def exampleToken_def)

text \<open>
  Claim C2, as the source has it. The detector keeps no count of consecutive qualifying
  ticks. In any state, a check of a token that is not migrated and whose reading is at or
  above the threshold calls the handler in that same check, and the handler waits in
  \<open>waitForConfirmation\<close>: as long as the wait does not return, the check does not return
  and nothing is emitted; when it has returned and the block number is read,
  \<open>migrationDetected\<close> is emitted and the token is marked migrated, the market cap not
  having been read again; when that read of the block number throws, nothing is emitted
  but the status update. The wait that begins at block \<open>currentBlock\<close> returns exactly when
  one of its polls reports a block number of at least
  \<open>currentBlock + confirmationBlocks\<close> or throws, and it returns at once when its first
  read of the block number throws: the error is logged and the handler goes on. A check
  whose reading is below the threshold (or whose token is migrated) emits the status
  update only and leaves the tokens as they are: there is nothing it could reset.
\<close>

theorem checkTokenMigration_fires_on_first_crossing:
  "(ce_reading env = Inr md \<and> \<not> isMigrated td
      \<and> migrationThreshold (migrationConfig d) \<le> md_marketCap md \<longrightarrow>
      (waitForConfirmation (migrationConfig d) (ce_blocks env) = None \<longrightarrow>
         checkTokenMigration a td env d = None)
      \<and> (waitForConfirmation (migrationConfig d) (ce_blocks env) = Some (Inr b # rest) \<longrightarrow>
           (\<exists>d'. checkTokenMigration a td env d = Some d'
              \<and> migrationsDetected a d' = Suc (migrationsDetected a d)
              \<and> (Map_has a (monitoredTokens d) \<longrightarrow>
                    map_option isMigrated (Map_get a (monitoredTokens d')) = Some True)))
      \<and> (waitForConfirmation (migrationConfig d) (ce_blocks env) = Some (Inl e # rest) \<longrightarrow>
           (\<exists>d'. checkTokenMigration a td env d = Some d'
              \<and> emitted d' = emitted d @ [StatusUpdate a]
              \<and> monitoredTokens d' = monitoredTokens d)))
   \<and> ((\<exists>left. waitForConfirmation cfg (Inr currentBlock # polls) = Some left)
        = (\<exists>r \<in> set polls. case r of Inl e \<Rightarrow> True
                                   | Inr n \<Rightarrow> currentBlock + confirmationBlocks cfg \<le> n))
   \<and> waitForConfirmation cfg (Inl e' # polls) = Some polls
   \<and> (ce_reading env = Inr md
      \<and> (isMigrated td \<or> md_marketCap md < migrationThreshold (migrationConfig d))
     \<longrightarrow> (\<exists>d'. checkTokenMigration a td env d = Some d'
              \<and> emitted d' = emitted d @ [StatusUpdate a]
              \<and> monitoredTokens d' = monitoredTokens d))"
proof (intro conjI impI)
  assume h: "ce_reading env = Inr md \<and> \<not> isMigrated td
      \<and> migrationThreshold (migrationConfig d) \<le> md_marketCap md"
    and w: "waitForConfirmation (migrationConfig d) (ce_blocks env) = None"
  then show "checkTokenMigration a td env d = None"
    by (simp add: checkTokenMigration_def calculateMigrationStatus_def Let_def
        MigrationDetector_handleMigrationEvent_def)
next
  assume h: "ce_reading env = Inr md \<and> \<not> isMigrated td
      \<and> migrationThreshold (migrationConfig d) \<le> md_marketCap md"
    and w: "waitForConfirmation (migrationConfig d) (ce_blocks env) = Some (Inr b # rest)"
  have get: "Map_has a m \<Longrightarrow> Map_get a (Map_set a v m) = Some v" for v and m :: "(string \<times> TokenData) list"
    by (induction m) (auto simp: Map_get_def Map_has_def)
  from h w show "\<exists>d'. checkTokenMigration a td env d = Some d'
              \<and> migrationsDetected a d' = Suc (migrationsDetected a d)
              \<and> (Map_has a (monitoredTokens d) \<longrightarrow>
                    map_option isMigrated (Map_get a (monitoredTokens d')) = Some True)"
    by (simp add: checkTokenMigration_def calculateMigrationStatus_def Let_def
        MigrationDetector_handleMigrationEvent_def handleMigrationEvent_afterWait_def
        migrationsDetected_def get)
next
  assume h: "ce_reading env = Inr md \<and> \<not> isMigrated td
      \<and> migrationThreshold (migrationConfig d) \<le> md_marketCap md"
    and w: "waitForConfirmation (migrationConfig d) (ce_blocks env) = Some (Inl e # rest)"
  then show "\<exists>d'. checkTokenMigration a td env d = Some d'
              \<and> emitted d' = emitted d @ [StatusUpdate a]
              \<and> monitoredTokens d' = monitoredTokens d"
    by (simp add: checkTokenMigration_def calculateMigrationStatus_def Let_def
        MigrationDetector_handleMigrationEvent_def handleMigrationEvent_afterWait_def)
next
  show "(\<exists>left. waitForConfirmation cfg (Inr currentBlock # polls) = Some left)
        = (\<exists>r \<in> set polls. case r of Inl e \<Rightarrow> True
                                   | Inr n \<Rightarrow> currentBlock + confirmationBlocks cfg \<le> n)"
    by (simp add: waitForConfirmation_def pollBlockNumber_returns)
next
  show "waitForConfirmation cfg (Inl e' # polls) = Some polls"
    by (simp add: waitForConfirmation_def)
next
  assume h: "ce_reading env = Inr md
      \<and> (isMigrated td \<or> md_marketCap md < migrationThreshold (migrationConfig d))"
  then show "\<exists>d'. checkTokenMigration a td env d = Some d'
              \<and> emitted d' = emitted d @ [StatusUpdate a]
              \<and> monitoredTokens d' = monitoredTokens d"
    by (auto simp add: checkTokenMigration_def calculateMigrationStatus_def Let_def)
qed

theorem checkTokenMigration_fires_on_first_crossing_witness:
  "(\<exists>d'. checkTokenMigration ''0xA'' exampleToken (capTick (182 / 10) ''0xA'') scenarioDetector = Some d'
         \<and> migrationsDetected ''0xA'' d' = 1
         \<and> map_option isMigrated (Map_get ''0xA'' (monitoredTokens d')) = Some True)
   \<and> checkTokenMigration ''0xA'' exampleToken
        ((capTick (182 / 10) ''0xA'')\<lparr>ce_blocks := [Inr 100, Inr 101, Inr 102]\<rparr>)
        scenarioDetector = None
   \<and> (\<exists>d'. checkTokenMigration ''0xA'' exampleToken
               ((capTick (182 / 10) ''0xA'')\<lparr>ce_blocks := [Inl (External ''rpc''), Inr 100]\<rparr>)
               scenarioDetector = Some d'
         \<and> migrationsDetected ''0xA'' d' = 1)
   \<and> (\<exists>d'. checkTokenMigration ''0xA'' exampleToken
               ((capTick (182 / 10) ''0xA'')
                  \<lparr>ce_blocks := [Inr 100, Inr 103, Inl (External ''rpc'')]\<rparr>)
               scenarioDetector = Some d'
         \<and> emitted d' = [TokenAdded ''0xA'', StatusUpdate ''0xA''])
   \<and> (\<exists>d'. checkTokenMigration ''0xA'' exampleToken (capTick (179 / 10) ''0xA'') scenarioDetector = Some d'
         \<and> emitted d' = [TokenAdded ''0xA'', StatusUpdate ''0xA'']
         \<and> monitoredTokens d' = [(''0xA'', exampleToken)])"
proof -
  have cfg: "migrationConfig scenarioDetector = defaultMigrationConfig"
    by (subst scenarioDetector_eq) simp
  have k: "confirmationBlocks defaultMigrationConfig = 3"
    and c: "migrationThreshold defaultMigrationConfig = 18"
    by (simp_all add: defaultMigrationConfig_def)
  have t: "monitoredTokens scenarioDetector = [(''0xA'', exampleToken)]"
    and e: "emitted scenarioDetector = [TokenAdded ''0xA'']"
    by (subst scenarioDetector_eq, simp)+
  have n: "\<not> isMigrated exampleToken" by (simp add: exampleToken_def)
  have z: "migrationsDetected ''0xA'' scenarioDetector = 0"
    by (simp add: migrationsDetected_def e)
  let ?md = "\<lparr> md_marketCap = 182 / 10, md_liquidityBNB = 182 / 10, md_progress = 43 / 50 \<rparr>"
  note T = checkTokenMigration_fires_on_first_crossing
    [where d = scenarioDetector and td = exampleToken and a = "''0xA''"
       and cfg = defaultMigrationConfig and currentBlock = 100 and polls = "[]"
       and e' = "External ''rpc''"]
  have a1: "\<exists>d'. checkTokenMigration ''0xA'' exampleToken (capTick (182 / 10) ''0xA'') scenarioDetector = Some d'
         \<and> migrationsDetected ''0xA'' d' = 1
         \<and> map_option isMigrated (Map_get ''0xA'' (monitoredTokens d')) = Some True"
    using T [where env = "capTick (182 / 10) ''0xA''" and md = ?md and b = 103 and rest = "[]"]
      cfg k c n z t
    by (simp add: capTick_def confirmedBlocks_def waitForConfirmation_def Map_has_def)
  have a2: "checkTokenMigration ''0xA'' exampleToken
        ((capTick (182 / 10) ''0xA'')\<lparr>ce_blocks := [Inr 100, Inr 101, Inr 102]\<rparr>)
        scenarioDetector = None"
    using T [where env = "(capTick (182 / 10) ''0xA'')\<lparr>ce_blocks := [Inr 100, Inr 101, Inr 102]\<rparr>"
               and md = ?md]
      cfg k c n
    by (simp add: capTick_def waitForConfirmation_def)
  have a3: "\<exists>d'. checkTokenMigration ''0xA'' exampleToken
               ((capTick (182 / 10) ''0xA'')\<lparr>ce_blocks := [Inl (External ''rpc''), Inr 100]\<rparr>)
               scenarioDetector = Some d'
         \<and> migrationsDetected ''0xA'' d' = 1"
    using T [where env = "(capTick (182 / 10) ''0xA'')\<lparr>ce_blocks := [Inl (External ''rpc''), Inr 100]\<rparr>"
               and md = ?md and b = 100 and rest = "[]"]
      cfg k c n z
    by (simp add: capTick_def waitForConfirmation_def) blast
  have a4: "\<exists>d'. checkTokenMigration ''0xA'' exampleToken
               ((capTick (182 / 10) ''0xA'')
                  \<lparr>ce_blocks := [Inr 100, Inr 103, Inl (External ''rpc'')]\<rparr>)
               scenarioDetector = Some d'
         \<and> emitted d' = [TokenAdded ''0xA'', StatusUpdate ''0xA'']"
    using T [where env = "(capTick (182 / 10) ''0xA'')
                  \<lparr>ce_blocks := [Inr 100, Inr 103, Inl (External ''rpc'')]\<rparr>"
               and md = ?md and e = "External ''rpc''" and rest = "[]"]
      cfg k c n e
    by (simp add: capTick_def waitForConfirmation_def) blast
  have a5: "\<exists>d'. checkTokenMigration ''0xA'' exampleToken (capTick (179 / 10) ''0xA'') scenarioDetector = Some d'
         \<and> emitted d' = [TokenAdded ''0xA'', StatusUpdate ''0xA'']
         \<and> monitoredTokens d' = [(''0xA'', exampleToken)]"
    using T [where env = "capTick (179 / 10) ''0xA''"
               and md = "\<lparr> md_marketCap = 179 / 10, md_liquidityBNB = 179 / 10, md_progress = 43 / 50 \<rparr>"]
      cfg c n t e
    by (simp add: capTick_def)
  from a1 a2 a3 a4 a5 show ?thesis by blast
qed

text \<open>
  With threshold 18 and three confirmation blocks, the market caps 17.6, 17.9, 18.2 of
  the first three ticks already produce the event: there is none after tick 2 and one
  after tick 3, the first reading at or above the threshold, not at tick 5. A fourth tick
  that reads 17.9 finds the event fired.
\<close>

theorem crossing_fires_at_tick_three_counterexample:
  "map_option (migrationsDetected ''0xA'')
     (runTicks [capTick (176 / 10), capTick (179 / 10)] scenarioDetector)
   = Some 0
   \<and> map_option (migrationsDetected ''0xA'')
     (runTicks [capTick (176 / 10), capTick (179 / 10), capTick (182 / 10)] scenarioDetector)
   = Some 1
   \<and> map_option (migrationsDetected ''0xA'')
     (runTicks [capTick (176 / 10), capTick (179 / 10), capTick (182 / 10), capTick (179 / 10)]
        scenarioDetector)
   = Some 1"
  by (simp add: scenarioDetector_def addToken_def newMigrationDetector_def checkAllTokens_def
      checkTokenMigration_def capTick_def Map_has_def Map_get_def Map_size_def
      defaultMigrationConfig_def exampleAddEnv_def fetchTokenData_def
      calculateMigrationStatus_def Let_def MigrationDetector_handleMigrationEvent_def
      handleMigrationEvent_afterWait_def waitForConfirmation_def confirmedBlocks_def
      bondingCurveMock_def migrationsDetected_def)

text \<open>
  Claim C1 at two overlapping ticks. The guard of line 1446 reads \<open>isMigrated\<close> before
  the handler's wait and the flag is set after it (line 1488), so a tick that the timer
  starts during the wait passes the guard as well, and \<open>migrationDetected\<close> is emitted
  twice for the one token.
\<close>

theorem overlapping_ticks_emit_twice:
  "map_option (migrationsDetected ''0xA'')
     (overlappingTicks ''0xA'' (Inr bondingCurveMock) confirmedBlocks lowThresholdDetector)
   = Some 2"
  by (simp add: overlappingTicks_def lowThresholdDetector_def addToken_def
      newMigrationDetector_def Map_has_def Map_get_def Map_size_def defaultMigrationConfig_def
      exampleAddEnv_def fetchTokenData_def calculateMigrationStatus_def Let_def
      checkTokenMigration_begin_def checkTokenMigration_resume_def
      MigrationDetector_handleMigrationEvent_def handleMigrationEvent_afterWait_def
      waitForConfirmation_def confirmedBlocks_def bondingCurveMock_def migrationsDetected_def)

section \<open>Ticks that do not overlap\<close>

text \<open>One check: what it does to the tokens and to the count of events.\<close>

lemma checkTokenMigration_effect:
  assumes "checkTokenMigration a td env d = Some d'"
  shows "map fst (monitoredTokens d') = map fst (monitoredTokens d)
         \<and> (\<forall>b. b \<noteq> a \<longrightarrow> Map_get b (monitoredTokens d') = Map_get b (monitoredTokens d)
                          \<and> migrationsDetected b d' = migrationsDetected b d)
         \<and> ((monitoredTokens d' = monitoredTokens d \<and> migrationsDetected a d' = migrationsDetected a d)
             \<or> (\<not> isMigrated td \<and> migrationsDetected a d' = Suc (migrationsDetected a d)
                 \<and> (\<forall>td'. Map_get a (monitoredTokens d') = Some td' \<longrightarrow> isMigrated td')))"
  using assms
  by (auto simp add: checkTokenMigration_def MigrationDetector_handleMigrationEvent_def
      handleMigrationEvent_afterWait_def Let_def migrationsDetected_def keys_Map_set_has
      Map_get_Map_set Map_has_iff_get
      split: sum.splits option.splits list.splits if_splits)

lemma checkTokenMigration_invariant:
  assumes step: "checkTokenMigration a td env d = Some d'"
    and inv: "emittedOnceInvariant d"
    and live: "Map_get a (monitoredTokens d) = Some td"
  shows "emittedOnceInvariant d'"
proof -
  note eff = checkTokenMigration_effect [OF step]
  from eff have keys: "map fst (monitoredTokens d') = map fst (monitoredTokens d)"
    by (rule conjunct1)
  from eff have other: "\<And>b. b \<noteq> a \<Longrightarrow>
      Map_get b (monitoredTokens d') = Map_get b (monitoredTokens d)
      \<and> migrationsDetected b d' = migrationsDetected b d"
    by blast
  from eff have self:
    "(monitoredTokens d' = monitoredTokens d \<and> migrationsDetected a d' = migrationsDetected a d)
     \<or> (\<not> isMigrated td \<and> migrationsDetected a d' = Suc (migrationsDetected a d)
         \<and> (\<forall>td'. Map_get a (monitoredTokens d') = Some td' \<longrightarrow> isMigrated td'))"
    by blast
  from inv have d: "distinct (map fst (monitoredTokens d))"
    and le: "\<And>b. migrationsDetected b d \<le> 1"
    and zero: "\<And>b tb. Map_get b (monitoredTokens d) = Some tb \<Longrightarrow> \<not> isMigrated tb
                 \<Longrightarrow> migrationsDetected b d = 0"
    by (simp_all add: emittedOnceInvariant_def)
  have le': "migrationsDetected b d' \<le> 1" for b
  proof (cases "b = a")
    case False
    with other [of b] le [of b] show ?thesis by simp
  next
    case True
    from self show ?thesis
    proof
      assume "monitoredTokens d' = monitoredTokens d
              \<and> migrationsDetected a d' = migrationsDetected a d"
      with le [of a] True show ?thesis by simp
    next
      assume f: "\<not> isMigrated td \<and> migrationsDetected a d' = Suc (migrationsDetected a d)
         \<and> (\<forall>td'. Map_get a (monitoredTokens d') = Some td' \<longrightarrow> isMigrated td')"
      with zero [OF live] have "migrationsDetected a d = 0" by simp
      with f True show ?thesis by simp
    qed
  qed
  have zero': "migrationsDetected b d' = 0"
    if g: "Map_get b (monitoredTokens d') = Some tb" and n: "\<not> isMigrated tb" for b tb
  proof (cases "b = a")
    case False
    with other [of b] g have "Map_get b (monitoredTokens d) = Some tb" by simp
    from zero [OF this n] other [of b] False show ?thesis by simp
  next
    case True
    from self show ?thesis
    proof
      assume u: "monitoredTokens d' = monitoredTokens d
              \<and> migrationsDetected a d' = migrationsDetected a d"
      with g have "Map_get b (monitoredTokens d) = Some tb" by simp
      from zero [OF this n] u True show ?thesis by simp
    next
      assume f: "\<not> isMigrated td \<and> migrationsDetected a d' = Suc (migrationsDetected a d)
         \<and> (\<forall>td'. Map_get a (monitoredTokens d') = Some td' \<longrightarrow> isMigrated td')"
      with g True have "isMigrated tb" by simp
      with n show ?thesis by simp
    qed
  qed
  from d keys le' zero' show ?thesis by (simp add: emittedOnceInvariant_def)
qed

lemma checkTokens_invariant:
  assumes "checkTokens xs envs d = Some d'"
    and "emittedOnceInvariant d"
    and "distinct (map fst xs)"
    and "\<forall>e \<in> set xs. Map_get (fst e) (monitoredTokens d) = Some (snd e)"
  shows "emittedOnceInvariant d'"
  using assms
proof (induction xs arbitrary: d)
  case Nil
  then show ?case by simp
next
  case (Cons e xs)
  from Cons.prems(1) obtain d1 where
    step: "checkTokenMigration (fst e) (snd e) (envs (fst e)) d = Some d1"
    and rest: "checkTokens xs envs d1 = Some d'"
    by (auto split: option.splits)
  from Cons.prems(4) have live: "Map_get (fst e) (monitoredTokens d) = Some (snd e)" by simp
  from checkTokenMigration_invariant [OF step Cons.prems(2) live]
  have inv1: "emittedOnceInvariant d1" .
  from Cons.prems(3) have dist: "distinct (map fst xs)" and notin: "fst e \<notin> set (map fst xs)"
    by simp_all
  have live1: "\<forall>e' \<in> set xs. Map_get (fst e') (monitoredTokens d1) = Some (snd e')"
  proof
    fix e' assume m: "e' \<in> set xs"
    with notin have "fst e' \<noteq> fst e" by (metis image_eqI list.set_map)
    with checkTokenMigration_effect [OF step]
    have "Map_get (fst e') (monitoredTokens d1) = Map_get (fst e') (monitoredTokens d)" by blast
    with Cons.prems(4) m show "Map_get (fst e') (monitoredTokens d1) = Some (snd e')" by simp
  qed
  from Cons.IH [OF rest inv1 dist live1] show ?case .
qed

lemma checkAllTokens_invariant:
  assumes "checkAllTokens envs d = Some d'" and "emittedOnceInvariant d"
  shows "emittedOnceInvariant d'"
proof -
  from assms(2) have dist: "distinct (map fst (monitoredTokens d))"
    by (simp add: emittedOnceInvariant_def)
  then have "\<forall>e \<in> set (monitoredTokens d). Map_get (fst e) (monitoredTokens d) = Some (snd e)"
    by (simp add: Map_get_def)
  from checkTokens_invariant [OF _ assms(2) dist this] assms(1)
  show ?thesis by (simp add: checkAllTokens_def)
qed

lemma runTicks_invariant:
  "runTicks ticks d = Some d' \<Longrightarrow> emittedOnceInvariant d \<Longrightarrow> emittedOnceInvariant d'"
proof (induction ticks arbitrary: d)
  case Nil
  then show ?case by simp
next
  case (Cons envs ticks)
  from Cons.prems(1) obtain d1 where a: "checkAllTokens envs d = Some d1"
    and b: "runTicks ticks d1 = Some d'"
    by (auto split: option.splits)
  from Cons.IH [OF b checkAllTokens_invariant [OF a Cons.prems(2)]] show ?case .
qed

lemma register_no_migration_event:
  "migrationsDetected a (register r d) = migrationsDetected a d"
  by (cases r)
    (auto simp add: addToken_def removeToken_def migrationsDetected_def Let_def
      split: sum.splits)

lemma register_distinct:
  "distinct (map fst (monitoredTokens d)) \<Longrightarrow> distinct (map fst (monitoredTokens (register r d)))"
  by (cases r) (simp_all add: addToken_distinct removeToken_def distinct_Map_delete)

lemma registrations_fresh:
  "distinct (map fst (monitoredTokens d)) \<Longrightarrow>
   distinct (map fst (monitoredTokens (awaitedRegistrations rs d)))
   \<and> migrationsDetected a (awaitedRegistrations rs d) = migrationsDetected a d"
proof (induction rs arbitrary: d)
  case Nil
  then show ?case by (simp add: awaitedRegistrations_def)
next
  case (Cons r rs)
  have c: "awaitedRegistrations (r # rs) d = awaitedRegistrations rs (register r d)"
    by (simp add: awaitedRegistrations_def)
  from Cons.IH [OF register_distinct [OF Cons.prems], of r]
  show ?case unfolding c by (simp add: register_no_migration_event)
qed

text \<open>
  Ticks that run to completion one after another. From a new detector, after any
  additions and removals of tokens, each call awaited before the next, every run of
  completed ticks leaves at most one \<open>migrationDetected\<close> event for every address: the
  guard of line 1446 and the flag of line 1488 do their work when no tick starts while
  another is suspended and no token is removed or added between the ticks.
\<close>

theorem sequential_ticks_emit_at_most_once:
  "runTicks ticks (awaitedRegistrations rs (newMigrationDetector cfg)) = Some d'
   \<longrightarrow> migrationsDetected a d' \<le> 1"
proof
  assume run: "runTicks ticks (awaitedRegistrations rs (newMigrationDetector cfg)) = Some d'"
  have z: "migrationsDetected b (newMigrationDetector cfg) = 0" for b
    by (simp add: migrationsDetected_def newMigrationDetector_def)
  have "distinct (map fst (monitoredTokens (newMigrationDetector cfg)))"
    by (simp add: newMigrationDetector_def)
  from registrations_fresh [OF this, of rs] z
  have "emittedOnceInvariant (awaitedRegistrations rs (newMigrationDetector cfg))"
    by (simp add: emittedOnceInvariant_def)
  from runTicks_invariant [OF run this]
  show "migrationsDetected a d' \<le> 1" by (simp add: emittedOnceInvariant_def)
qed

theorem sequential_ticks_emit_at_most_once_witness:
  "(\<exists>d'. runTicks [capTick (176 / 10), capTick (182 / 10), capTick (183 / 10)]
           (awaitedRegistrations [Add ''0xA'' exampleAddEnv] (newMigrationDetector defaultMigrationConfig))
         = Some d'
       \<and> migrationsDetected ''0xA'' d' \<le> 1)"
proof -
  have "map_option (migrationsDetected ''0xA'')
          (runTicks [capTick (176 / 10), capTick (182 / 10), capTick (183 / 10)]
             (awaitedRegistrations [Add ''0xA'' exampleAddEnv]
                (newMigrationDetector defaultMigrationConfig))) = Some 1"
    by (simp add: awaitedRegistrations_def addToken_def newMigrationDetector_def checkAllTokens_def
        checkTokenMigration_def capTick_def Map_has_def Map_get_def Map_size_def
        defaultMigrationConfig_def exampleAddEnv_def fetchTokenData_def
        calculateMigrationStatus_def Let_def MigrationDetector_handleMigrationEvent_def
        handleMigrationEvent_afterWait_def waitForConfirmation_def confirmedBlocks_def
        bondingCurveMock_def migrationsDetected_def)
  then obtain d' where r: "runTicks [capTick (176 / 10), capTick (182 / 10), capTick (183 / 10)]
           (awaitedRegistrations [Add ''0xA'' exampleAddEnv] (newMigrationDetector defaultMigrationConfig))
         = Some d'"
    by auto
  with sequential_ticks_emit_at_most_once
      [where ticks = "[capTick (176 / 10), capTick (182 / 10), capTick (183 / 10)]"
         and rs = "[Add ''0xA'' exampleAddEnv]" and cfg = defaultMigrationConfig and d' = d'
         and a = "''0xA''"]
  show ?thesis by simp
qed

section \<open>Statistics\<close>




section \<open>The exit decision\<close>




lemma positionId_updatePositionStatus [simp]:
  "positionId (updatePositionStatus q price) = positionId q"
  by (simp add: updatePositionStatus_def Let_def split: number.splits)



text \<open>
  For the entry amount of a swap, an unsigned integer of 256 bits, the profit and loss is
  finite whenever the quotient of line 339 is: the refresh then writes the four fields,
  and the last three cases of the inner distinction of \<open>updatePositionStatus\<close> are not
  reached.
\<close>

lemma floor_bounded: "\<bar>q\<bar> \<le> 2 ^ n \<Longrightarrow> \<bar>real_of_int \<lfloor>q\<rfloor>\<bar> \<le> 2 ^ n" for q :: real
proof -
  assume a: "\<bar>q\<bar> \<le> 2 ^ n"
  have "real_of_int (- (2 ^ n)) \<le> q" using a by simp
  then have "- (2 ^ n) \<le> \<lfloor>q\<rfloor>" by (simp only: le_floor_iff)
  then have lo: "- (2 ^ n) \<le> real_of_int \<lfloor>q\<rfloor>"
    by (metis of_int_le_iff of_int_minus of_int_numeral of_int_power)
  have "real_of_int \<lfloor>q\<rfloor> \<le> q" by simp
  with a have "real_of_int \<lfloor>q\<rfloor> \<le> 2 ^ n" by linarith
  with lo show ?thesis by (simp add: abs_le_iff)
qed

lemma int_bounded: "0 \<le> k \<Longrightarrow> k < 2 ^ n \<Longrightarrow> \<bar>real_of_int k\<bar> \<le> 2 ^ n"
proof -
  assume a: "0 \<le> k" and b: "k < 2 ^ n"
  from b have "real_of_int k < real_of_int (2 ^ n)" by (simp only: of_int_less_iff)
  then have "real_of_int k < 2 ^ n" by simp
  with a show ?thesis by simp
qed

lemma double_times_Fin_bound: "double_times x y = Fin P \<Longrightarrow> \<bar>P\<bar> < 2 ^ 1024"
  by (cases x; cases y) (auto simp add: infinityOfSign_def split: if_splits dest: double_Fin_bound)

lemma updatePositionStatus_refreshes:
  assumes "0 \<le> entryAmount position" and "entryAmount position < 2 ^ 256"
    and "double_divide (double_times (Number_of_bigint (tokenAmount position)) price)
           (Fin (10 ^ 18)) = Fin q"
  shows "\<exists>v. updatePositionStatus position price
               = position\<lparr>currentPrice := Some price, currentValue := Some \<lfloor>q\<rfloor>,
                           profitLoss := Some v,
                           profitLossPercent :=
                             Some (double_times
                                     (double_divide (Fin v)
                                        (Number_of_bigint (entryAmount position)))
                                     (Fin 100))\<rparr>"
proof -
  let ?product = "double_times (Number_of_bigint (tokenAmount position)) price"
  from assms(3) obtain P where P: "?product = Fin P" and q: "double (P / 10 ^ 18) = Fin q"
    by (cases ?product) (simp_all split: if_splits)
  from double_times_Fin_bound [OF P] have "\<bar>P\<bar> < 2 ^ 1024" .
  moreover have "(2::real) ^ 1024 = 2 ^ 59 * 2 ^ 965" by (simp only: power_add [symmetric]) simp
  moreover have "(2::real) ^ 59 \<le> 10 ^ 18" by simp
  ultimately have "\<bar>P / 10 ^ 18\<bar> \<le> 2 ^ 965"
  proof -
    assume a: "\<bar>P\<bar> < 2 ^ 1024" and b: "(2::real) ^ 1024 = 2 ^ 59 * 2 ^ 965"
      and c: "(2::real) ^ 59 \<le> 10 ^ 18"
    have "\<bar>P\<bar> \<le> 2 ^ 59 * 2 ^ 965" using a b by simp
    also have "\<dots> \<le> 10 ^ 18 * 2 ^ 965" using c by (intro mult_right_mono) simp_all
    finally have "\<bar>P\<bar> / 10 ^ 18 \<le> 2 ^ 965" by (simp add: pos_divide_le_eq mult.commute)
    then show ?thesis by simp
  qed
  from double_finite_upto [OF this] q have qb: "\<bar>q\<bar> \<le> 2 ^ 966" by simp
  have "\<bar>real_of_int \<lfloor>q\<rfloor>\<bar> \<le> 2 ^ 966" using qb by (rule floor_bounded)
  from double_finite_upto [OF this] obtain v1 where
    v1: "Number_of_bigint \<lfloor>q\<rfloor> = Fin v1" "\<bar>v1\<bar> \<le> 2 ^ 967"
    by (auto simp add: Number_of_bigint_def)
  have "\<bar>real_of_int (entryAmount position)\<bar> \<le> 2 ^ 256"
    using assms(1) assms(2) by (rule int_bounded)
  from double_finite_upto [OF this] obtain e1 where
    e1: "Number_of_bigint (entryAmount position) = Fin e1" "\<bar>e1\<bar> \<le> 2 ^ 257"
    by (auto simp add: Number_of_bigint_def)
  have "(2::real) ^ 257 \<le> 2 ^ 967" by (intro power_increasing) simp_all
  moreover have "(2::real) ^ 968 = 2 * 2 ^ 967" by (simp only: power_Suc [symmetric]) simp
  ultimately have "\<bar>v1 - e1\<bar> \<le> 2 ^ 968" using v1(2) e1(2) by linarith
  from double_finite_upto [OF this] obtain v where v: "double (v1 - e1) = Fin v" by auto
  have "updatePositionStatus position price
               = position\<lparr>currentPrice := Some price, currentValue := Some \<lfloor>q\<rfloor>,
                           profitLoss := Some v,
                           profitLossPercent :=
                             Some (double_times
                                     (double_divide (Fin v)
                                        (Number_of_bigint (entryAmount position)))
                                     (Fin 100))\<rparr>"
    using assms(3) v1(1) e1(1) v
    by (simp add: updatePositionStatus_def Let_def double_minus_def)
  then show ?thesis by (rule exI)
qed

text \<open>
  The refresh of a position of \<open>10\<^sup>1\<^sup>8\<close> token units bought for 0.1 BNB, at the prices of
  the examples: the doubles of the source give these values exactly.
\<close>

lemma refresh_at_example_prices:
  assumes "tokenAmount q = 10 ^ 18" and "entryAmount q = 10 ^ 17"
  shows "p = 7 * 10 ^ 16 \<Longrightarrow> updatePositionStatus q (Fin p)
           = q\<lparr>currentPrice := Some (Fin p), currentValue := Some (7 * 10 ^ 16),
               profitLoss := Some (- 3 * 10 ^ 16), profitLossPercent := Some (Fin (- 30))\<rparr>"
    and "p = 8 * 10 ^ 16 \<Longrightarrow> updatePositionStatus q (Fin p)
           = q\<lparr>currentPrice := Some (Fin p), currentValue := Some (8 * 10 ^ 16),
               profitLoss := Some (- 2 * 10 ^ 16), profitLossPercent := Some (Fin (- 20))\<rparr>"
    and "p = 11 * 10 ^ 16 \<Longrightarrow> updatePositionStatus q (Fin p)
           = q\<lparr>currentPrice := Some (Fin p), currentValue := Some (11 * 10 ^ 16),
               profitLoss := Some (10 ^ 16), profitLossPercent := Some (Fin 10)\<rparr>"
    and "p = 13 * 10 ^ 16 \<Longrightarrow> updatePositionStatus q (Fin p)
           = q\<lparr>currentPrice := Some (Fin p), currentValue := Some (13 * 10 ^ 16),
               profitLoss := Some (3 * 10 ^ 16), profitLossPercent := Some (Fin 30)\<rparr>"
    and "p = 15 * 10 ^ 16 \<Longrightarrow> updatePositionStatus q (Fin p)
           = q\<lparr>currentPrice := Some (Fin p), currentValue := Some (15 * 10 ^ 16),
               profitLoss := Some (5 * 10 ^ 16), profitLossPercent := Some (Fin 50)\<rparr>"
  using assms by (simp_all add: updatePositionStatus_def Number_of_bigint_def double_eval)





section \<open>Opening a position\<close>

lemma handleMigrationEvent_phases:
  "TransitionLogic_handleMigrationEvent ev env st =
     (if TransitionLogic_handleMigrationEvent_begin st
      then TransitionLogic_handleMigrationEvent_resume ev env st else st)"
  by (simp add: TransitionLogic_handleMigrationEvent_def
      TransitionLogic_handleMigrationEvent_begin_def
      TransitionLogic_handleMigrationEvent_resume_def)

lemma handleMigrationEvent_opens:
  assumes "Map_size (activePositions st) < maxConcurrentTrades (transitionConfig st)"
    and "be_swapData env = Inr swapData"
    and "\<not> insufficientLiquidity (transitionConfig st) swapData"
    and "Map_get (defaultStrategy (transitionConfig st)) (strategies (transitionConfig st)) = Some strat"
    and "be_wallet env = None" and "be_buy env = Inr buyResult" and "sr_success buyResult"
  shows "\<exists>position.
           TransitionLogic_handleMigrationEvent ev env st
             = st\<lparr>positionCounter := Suc (positionCounter st),
                  activePositions :=
                    Map_set (be_clock env, Suc (positionCounter st)) position (activePositions st),
                  transitionEvents :=
                    transitionEvents st @ [TransitionExecuted (be_clock env, Suc (positionCounter st))]\<rparr>
           \<and> positionId position = (be_clock env, Suc (positionCounter st))
           \<and> tokenAddress position = me_tokenAddress ev
           \<and> status position = ACTIVE
           \<and> entryAmount position = sr_amountIn buyResult
           \<and> tokenAmount position = sr_amountOut buyResult
           \<and> strategy position = strategyName strat"
proof -
  let ?position = "fst (createPosition ev buyResult strat (be_clock env) st)"
  have "TransitionLogic_handleMigrationEvent ev env st
             = st\<lparr>positionCounter := Suc (positionCounter st),
                  activePositions :=
                    Map_set (be_clock env, Suc (positionCounter st)) ?position (activePositions st),
                  transitionEvents :=
                    transitionEvents st @ [TransitionExecuted (be_clock env, Suc (positionCounter st))]\<rparr>
           \<and> positionId ?position = (be_clock env, Suc (positionCounter st))
           \<and> tokenAddress ?position = me_tokenAddress ev
           \<and> status ?position = ACTIVE
           \<and> entryAmount ?position = sr_amountIn buyResult
           \<and> tokenAmount ?position = sr_amountOut buyResult
           \<and> strategy ?position = strategyName strat"
    using assms
    by (simp add: TransitionLogic_handleMigrationEvent_def executeTransitionStrategy_def
        createPosition_def Let_def)
  then show ?thesis by blast
qed

lemma handleMigrationEvent_declines:
  assumes "\<not> (Map_size (activePositions st) < maxConcurrentTrades (transitionConfig st)
             \<and> (\<exists>swapData. be_swapData env = Inr swapData
                    \<and> \<not> insufficientLiquidity (transitionConfig st) swapData)
             \<and> (\<exists>strat. Map_get (defaultStrategy (transitionConfig st))
                             (strategies (transitionConfig st)) = Some strat)
             \<and> be_wallet env = None
             \<and> (\<exists>buyResult. be_buy env = Inr buyResult \<and> sr_success buyResult))"
  shows "TransitionLogic_handleMigrationEvent ev env st = st"
  using assms
  by (auto simp add: TransitionLogic_handleMigrationEvent_def executeTransitionStrategy_def
      createPosition_def Let_def split: sum.splits option.splits if_splits)

lemma handleMigrationEvent_ignores_exposure:
  "TransitionLogic_handleMigrationEvent ev env
     (st\<lparr>transitionConfig := (transitionConfig st)\<lparr>maxTotalExposure := m\<rparr>\<rparr>)
   = (TransitionLogic_handleMigrationEvent ev env st)
       \<lparr>transitionConfig := (transitionConfig st)\<lparr>maxTotalExposure := m\<rparr>\<rparr>"
  by (simp add: TransitionLogic_handleMigrationEvent_def executeTransitionStrategy_def
      createPosition_def Let_def insufficientLiquidity_def
      split: sum.splits option.splits)

text \<open>
  What one handler does when no other handler runs between its awaits. It opens a
  position exactly when the count of entries in \<open>activePositions\<close> is below
  \<open>maxConcurrentTrades\<close>, the swap data is read, the liquidity test passes, the default
  strategy is configured, the wallet is created and the buy succeeds: then one position
  with the status \<open>ACTIVE\<close> is stored for the amounts of the buy and
  \<open>transitionExecuted\<close> is emitted. In every other case the state stays as it is.
  \<open>maxTotalExposure\<close> is read nowhere: changing it changes nothing but the configuration
  itself.
\<close>

theorem handleMigrationEvent_opens_exactly_when:
  "(Map_size (activePositions st) < maxConcurrentTrades (transitionConfig st)
      \<and> be_swapData env = Inr swapData
      \<and> \<not> insufficientLiquidity (transitionConfig st) swapData
      \<and> Map_get (defaultStrategy (transitionConfig st)) (strategies (transitionConfig st))
          = Some strat
      \<and> be_wallet env = None \<and> be_buy env = Inr buyResult \<and> sr_success buyResult \<longrightarrow>
      (\<exists>position.
           TransitionLogic_handleMigrationEvent ev env st
             = st\<lparr>positionCounter := Suc (positionCounter st),
                  activePositions :=
                    Map_set (be_clock env, Suc (positionCounter st)) position (activePositions st),
                  transitionEvents :=
                    transitionEvents st @ [TransitionExecuted (be_clock env, Suc (positionCounter st))]\<rparr>
           \<and> positionId position = (be_clock env, Suc (positionCounter st))
           \<and> tokenAddress position = me_tokenAddress ev
           \<and> status position = ACTIVE
           \<and> entryAmount position = sr_amountIn buyResult
           \<and> tokenAmount position = sr_amountOut buyResult
           \<and> strategy position = strategyName strat))
   \<and> (\<not> (Map_size (activePositions st) < maxConcurrentTrades (transitionConfig st)
             \<and> (\<exists>swapData. be_swapData env = Inr swapData
                    \<and> \<not> insufficientLiquidity (transitionConfig st) swapData)
             \<and> (\<exists>strat. Map_get (defaultStrategy (transitionConfig st))
                             (strategies (transitionConfig st)) = Some strat)
             \<and> be_wallet env = None
             \<and> (\<exists>buyResult. be_buy env = Inr buyResult \<and> sr_success buyResult)) \<longrightarrow>
        TransitionLogic_handleMigrationEvent ev env st = st)
   \<and> TransitionLogic_handleMigrationEvent ev env
        (st\<lparr>transitionConfig := (transitionConfig st)\<lparr>maxTotalExposure := m\<rparr>\<rparr>)
      = (TransitionLogic_handleMigrationEvent ev env st)
          \<lparr>transitionConfig := (transitionConfig st)\<lparr>maxTotalExposure := m\<rparr>\<rparr>"
  using handleMigrationEvent_opens [of st env swapData strat buyResult ev]
    handleMigrationEvent_declines [of st env ev]
    handleMigrationEvent_ignores_exposure [where ev = ev and env = env and st = st and m = m]
  by blast

lemma oneTradeConfig_facts:
  "maxConcurrentTrades oneTradeConfig = 1
   \<and> Map_get (defaultStrategy oneTradeConfig) (strategies oneTradeConfig) = Some aggressive
   \<and> \<not> insufficientLiquidity oneTradeConfig
         \<lparr> msd_liquidityBNB = 182 / 10, msd_tokenPrice = Fin (10 ^ 17) \<rparr>"
  by (simp add: oneTradeConfig_def loadTransitionConfig_def Map_get_def insufficientLiquidity_def)

theorem handleMigrationEvent_opens_exactly_when_witness:
  "(\<exists>position.
      activePositions
        (TransitionLogic_handleMigrationEvent exampleMigrationEvent exampleBuyEnv
           (newTransitionLogic oneTradeConfig)) = [((5000, 1), position)]
      \<and> tokenAddress position = ''0xA'' \<and> status position = ACTIVE
      \<and> entryAmount position = 10 ^ 17 \<and> strategy position = ''aggressive'')
   \<and> TransitionLogic_handleMigrationEvent secondMigrationEvent secondBuyEnv
        ((newTransitionLogic oneTradeConfig)\<lparr>activePositions := [((0, 1), examplePosition)]\<rparr>)
      = (newTransitionLogic oneTradeConfig)\<lparr>activePositions := [((0, 1), examplePosition)]\<rparr>"
proof -
  note facts = oneTradeConfig_facts
  have a: "\<exists>position.
      activePositions
        (TransitionLogic_handleMigrationEvent exampleMigrationEvent exampleBuyEnv
           (newTransitionLogic oneTradeConfig)) = [((5000, 1), position)]
      \<and> tokenAddress position = ''0xA'' \<and> status position = ACTIVE
      \<and> entryAmount position = 10 ^ 17 \<and> strategy position = ''aggressive''"
    using handleMigrationEvent_opens_exactly_when
      [where st = "newTransitionLogic oneTradeConfig" and env = exampleBuyEnv
         and ev = exampleMigrationEvent
         and swapData = "\<lparr> msd_liquidityBNB = 182 / 10, msd_tokenPrice = Fin (10 ^ 17) \<rparr>"
         and strat = aggressive and buyResult = "successfulSwap (10 ^ 17) (10 ^ 18)" and m = 0]
      facts
    by (auto simp add: newTransitionLogic_def Map_size_def exampleBuyEnv_def successfulSwap_def
        aggressive_def exampleMigrationEvent_def)
  have b: "TransitionLogic_handleMigrationEvent secondMigrationEvent secondBuyEnv
        ((newTransitionLogic oneTradeConfig)\<lparr>activePositions := [((0, 1), examplePosition)]\<rparr>)
      = (newTransitionLogic oneTradeConfig)\<lparr>activePositions := [((0, 1), examplePosition)]\<rparr>"
    using handleMigrationEvent_opens_exactly_when
      [where st = "(newTransitionLogic oneTradeConfig)\<lparr>activePositions := [((0, 1), examplePosition)]\<rparr>"
         and env = secondBuyEnv and ev = secondMigrationEvent and m = 0]
      facts
    by (simp add: newTransitionLogic_def Map_size_def)
  from a b show ?thesis by blast
qed

text \<open>
  Claim C4 on the source, at two inputs. With \<open>MAX_TOTAL_EXPOSURE=0.15\<close> and one position of
  0.1 BNB open, the admission rule of the specification refuses a second buy of 0.1 BNB,
  and the handler of the next event opens the second position: 0.2 BNB are committed
  against a limit of 0.15 BNB that no code reads. With \<open>MAX_CONCURRENT_TRADES=1\<close> and two
  events whose handlers overlap, both handlers pass the test of line 146 before either
  stores its position, and two positions are open against a limit of one.
\<close>

theorem risk_limits_are_exceeded:
  "maxTotalExposure tightExposureConfig = 15 * 10 ^ 16
   \<and> map (\<lambda>e. entryAmount (snd e))
        (activePositions
           (TransitionLogic_handleMigrationEvent exampleMigrationEvent exampleBuyEnv
              (newTransitionLogic tightExposureConfig))) = [10 ^ 17]
   \<and> \<not> canOpen_spec tightExposureConfig
          (map snd
             (activePositions
                (TransitionLogic_handleMigrationEvent exampleMigrationEvent exampleBuyEnv
                   (newTransitionLogic tightExposureConfig))))
          (buyAmount aggressive)
   \<and> map (\<lambda>e. (fst e, status (snd e), entryAmount (snd e)))
        (activePositions
           (TransitionLogic_handleMigrationEvent secondMigrationEvent secondBuyEnv
              (TransitionLogic_handleMigrationEvent exampleMigrationEvent exampleBuyEnv
                 (newTransitionLogic tightExposureConfig))))
       = [((5000, 1), ACTIVE, 10 ^ 17), ((6000, 2), ACTIVE, 10 ^ 17)]
   \<and> maxConcurrentTrades oneTradeConfig = 1
   \<and> map (\<lambda>e. (fst e, status (snd e)))
        (activePositions
           (overlappingEvents exampleMigrationEvent exampleBuyEnv secondMigrationEvent
              secondBuyEnv (newTransitionLogic oneTradeConfig)))
       = [((5000, 1), ACTIVE), ((6000, 2), ACTIVE)]"
  by (simp add: canOpen_spec_def tightExposureConfig_def oneTradeConfig_def newTransitionLogic_def
      loadTransitionConfig_def aggressive_def conservative_def overlappingEvents_def
      TransitionLogic_handleMigrationEvent_def TransitionLogic_handleMigrationEvent_begin_def
      TransitionLogic_handleMigrationEvent_resume_def Map_size_def exampleBuyEnv_def
      secondBuyEnv_def insufficientLiquidity_def Map_get_def executeTransitionStrategy_def
      successfulSwap_def createPosition_def Let_def)

section \<open>Exits that fail\<close>

lemma wellFormed_Map_set:
  "wellFormedPositions m \<Longrightarrow> positionId v = k \<Longrightarrow> wellFormedPositions (Map_set k v m)"
  unfolding wellFormedPositions_def
proof (intro conjI)
  assume "distinct (map fst m) \<and> list_all (\<lambda>e. positionId (snd e) = fst e) m"
  then show "distinct (map fst (Map_set k v m))" by (simp add: keys_Map_set Map_has_def)
next
  assume a: "distinct (map fst m) \<and> list_all (\<lambda>e. positionId (snd e) = fst e) m"
    and b: "positionId v = k"
  then have "list_all (\<lambda>e. positionId (snd e) = fst e) m" by simp
  then show "list_all (\<lambda>e. positionId (snd e) = fst e) (Map_set k v m)"
    using b by (induction m) auto
qed

lemma wellFormed_Map_delete:
  "wellFormedPositions m \<Longrightarrow> wellFormedPositions (Map_delete k m)"
  by (simp add: wellFormedPositions_def Map_delete_def distinct_map_filter list_all_iff)

lemma monitorPosition_config [simp]:
  "transitionConfig (monitorPosition env now s e) = transitionConfig s"
  by (simp add: monitorPosition_def executeExitStrategy_def Let_def
      split: option.splits sum.splits)

lemma monitorPosition_wellFormed:
  "wellFormedPositions (activePositions s) \<Longrightarrow>
   wellFormedPositions (activePositions (monitorPosition env now s e))"
  by (simp add: monitorPosition_def executeExitStrategy_def Let_def wellFormed_Map_set
      wellFormed_Map_delete split: option.splits sum.splits)

lemma monitorPosition_other:
  "positionId (snd e) \<noteq> k \<Longrightarrow>
   Map_get k (activePositions (monitorPosition env now s e)) = Map_get k (activePositions s)
   \<and> count_list (sellOrders (monitorPosition env now s e)) k = count_list (sellOrders s) k"
  by (simp add: monitorPosition_def executeExitStrategy_def Let_def Map_get_Map_set
      Map_get_Map_delete split: option.splits sum.splits)

lemma monitorPosition_failing:
  assumes "positionId (snd e) = k" and "sellFails env"
    and "exitDue (transitionConfig s) now (snd e) env"
  shows "Map_get k (activePositions (monitorPosition env now s e))
           = Some ((updatePositionStatus (snd e) (getCurrentTokenPrice (xe_price env)))
                     \<lparr>status := STOPPED\<rparr>)
         \<and> count_list (sellOrders (monitorPosition env now s e)) k
             = Suc (count_list (sellOrders s) k)"
  using assms
  by (auto simp add: monitorPosition_def executeExitStrategy_def Let_def Map_get_Map_set
      sellFails_def exitDue_def split: option.splits sum.splits)

lemma monitor_fold_config [simp]:
  "transitionConfig (foldl (\<lambda>s e. monitorPosition (envs (fst e)) now s e) s xs)
     = transitionConfig s"
  by (induction xs arbitrary: s) simp_all

lemma monitor_fold_wellFormed:
  "wellFormedPositions (activePositions s) \<Longrightarrow>
   wellFormedPositions
     (activePositions (foldl (\<lambda>s e. monitorPosition (envs (fst e)) now s e) s xs))"
  by (induction xs arbitrary: s) (simp_all add: monitorPosition_wellFormed)

lemma monitor_fold_other:
  assumes "list_all (\<lambda>e. positionId (snd e) = fst e) xs" and "k \<notin> set (map fst xs)"
  shows "Map_get k (activePositions (foldl (\<lambda>s e. monitorPosition (envs (fst e)) now s e) s xs))
           = Map_get k (activePositions s)
         \<and> count_list (sellOrders (foldl (\<lambda>s e. monitorPosition (envs (fst e)) now s e) s xs)) k
             = count_list (sellOrders s) k"
  using assms
proof (induction xs arbitrary: s)
  case Nil
  then show ?case by simp
next
  case (Cons e xs)
  then have ne: "positionId (snd e) \<noteq> k" by auto
  from Cons.prems have "list_all (\<lambda>e. positionId (snd e) = fst e) xs" and "k \<notin> set (map fst xs)"
    by simp_all
  from Cons.IH [OF this, of "monitorPosition (envs (fst e)) now s e"]
    monitorPosition_other [OF ne, of "envs (fst e)" now s]
  show ?case by simp
qed

lemma monitor_fold_failing:
  assumes "list_all (\<lambda>e. positionId (snd e) = fst e) xs" and "distinct (map fst xs)"
    and "map_of xs k = Some p" and "sellFails (envs k)"
    and "exitDue (transitionConfig s) now p (envs k)"
  shows "Map_get k (activePositions (foldl (\<lambda>s e. monitorPosition (envs (fst e)) now s e) s xs))
           = Some ((updatePositionStatus p (getCurrentTokenPrice (xe_price (envs k))))
                     \<lparr>status := STOPPED\<rparr>)
         \<and> count_list (sellOrders (foldl (\<lambda>s e. monitorPosition (envs (fst e)) now s e) s xs)) k
             = Suc (count_list (sellOrders s) k)"
  using assms
proof (induction xs arbitrary: s)
  case Nil
  then show ?case by simp
next
  case (Cons e xs)
  let ?s1 = "monitorPosition (envs (fst e)) now s e"
  from Cons.prems have wf: "list_all (\<lambda>e. positionId (snd e) = fst e) xs"
    and id: "positionId (snd e) = fst e" and d: "distinct (map fst xs)"
    and notin: "fst e \<notin> set (map fst xs)"
    by simp_all
  show ?case
  proof (cases "fst e = k")
    case True
    with Cons.prems have p: "snd e = p" by simp
    from True id have idk: "positionId (snd e) = k" by simp
    from Cons.prems(5) p have due: "exitDue (transitionConfig s) now (snd e) (envs k)" by simp
    from monitorPosition_failing [OF idk Cons.prems(4) due]
    have step: "Map_get k (activePositions (monitorPosition (envs k) now s e))
           = Some ((updatePositionStatus (snd e) (getCurrentTokenPrice (xe_price (envs k))))
                     \<lparr>status := STOPPED\<rparr>)
         \<and> count_list (sellOrders (monitorPosition (envs k) now s e)) k
             = Suc (count_list (sellOrders s) k)" .
    from True notin have "k \<notin> set (map fst xs)" by simp
    from monitor_fold_other [OF wf this, of envs now "monitorPosition (envs k) now s e"] step p True
    show ?thesis by simp
  next
    case False
    with Cons.prems have m: "map_of xs k = Some p" by simp
    from False id have ne: "positionId (snd e) \<noteq> k" by simp
    have due: "exitDue (transitionConfig ?s1) now p (envs k)"
      using Cons.prems(5) by simp
    from Cons.IH [OF wf d m Cons.prems(4) due]
      monitorPosition_other [OF ne, of "envs (fst e)" now s]
    show ?thesis by simp
  qed
qed

lemma monitorPositions_failing:
  assumes "wellFormedPositions (activePositions st)"
    and "Map_get k (activePositions st) = Some q"
    and "sellFails (envs k)" and "exitDue (transitionConfig st) now q (envs k)"
  shows "wellFormedPositions (activePositions (monitorPositions envs now st))
         \<and> transitionConfig (monitorPositions envs now st) = transitionConfig st
         \<and> count_list (sellOrders (monitorPositions envs now st)) k
             = Suc (count_list (sellOrders st) k)
         \<and> Map_get k (activePositions (monitorPositions envs now st))
             = Some ((updatePositionStatus q (getCurrentTokenPrice (xe_price (envs k))))
                       \<lparr>status := STOPPED\<rparr>)"
proof -
  from assms(1) have wf: "list_all (\<lambda>e. positionId (snd e) = fst e) (activePositions st)"
    and d: "distinct (map fst (activePositions st))"
    by (simp_all add: wellFormedPositions_def)
  from assms(2) have m: "map_of (activePositions st) k = Some q" by (simp add: Map_get_def)
  from monitor_fold_failing [where envs = envs and k = k, OF wf d m assms(3) assms(4)]
  have f: "Map_get k (activePositions (monitorPositions envs now st))
           = Some ((updatePositionStatus q (getCurrentTokenPrice (xe_price (envs k))))
                     \<lparr>status := STOPPED\<rparr>)
         \<and> count_list (sellOrders (monitorPositions envs now st)) k
             = Suc (count_list (sellOrders st) k)"
    by (simp add: monitorPositions_def)
  from f monitor_fold_wellFormed [OF assms(1), of envs now "activePositions st"]
  show ?thesis by (simp add: monitorPositions_def)
qed

lemma runMonitoring_Cons:
  "runMonitoring (tick # ticks) st = runMonitoring ticks (monitorPositions (fst tick) (snd tick) st)"
  by (simp add: runMonitoring_def)

lemma runMonitoring_failing:
  assumes "wellFormedPositions (activePositions st)"
    and "Map_get k (activePositions st) = Some p"
    and "everyExitFails (transitionConfig st) k ticks p"
  shows "count_list (sellOrders (runMonitoring ticks st)) k
           = count_list (sellOrders st) k + length ticks
         \<and> (\<exists>q. Map_get k (activePositions (runMonitoring ticks st)) = Some q
                \<and> (ticks = [] \<longrightarrow> q = p) \<and> (ticks \<noteq> [] \<longrightarrow> status q = STOPPED))"
  using assms
proof (induction ticks arbitrary: st p)
  case Nil
  then show ?case by (simp add: runMonitoring_def)
next
  case (Cons tick ticks)
  let ?st1 = "monitorPositions (fst tick) (snd tick) st"
  let ?p1 = "(updatePositionStatus p (getCurrentTokenPrice (xe_price (fst tick k))))
               \<lparr>status := STOPPED\<rparr>"
  from Cons.prems(3) have fails: "sellFails (fst tick k)"
    and due: "exitDue (transitionConfig st) (snd tick) p (fst tick k)"
    and rest: "everyExitFails (transitionConfig st) k ticks ?p1"
    by simp_all
  note step = monitorPositions_failing [where envs = "fst tick" and k = k and now = "snd tick",
      OF Cons.prems(1) Cons.prems(2) fails due]
  from step have wf1: "wellFormedPositions (activePositions ?st1)"
    and cfg1: "transitionConfig ?st1 = transitionConfig st"
    and cnt: "count_list (sellOrders ?st1) k = Suc (count_list (sellOrders st) k)"
    and get1: "Map_get k (activePositions ?st1) = Some ?p1"
    by blast+
  from rest cfg1 have rest1: "everyExitFails (transitionConfig ?st1) k ticks ?p1" by simp
  note ih = Cons.IH [OF wf1 get1 rest1]
  from ih have c2: "count_list (sellOrders (runMonitoring ticks ?st1)) k
           = count_list (sellOrders ?st1) k + length ticks" by (rule conjunct1)
  from ih obtain q where q: "Map_get k (activePositions (runMonitoring ticks ?st1)) = Some q"
    and q1: "ticks = [] \<longrightarrow> q = ?p1" and q2: "ticks \<noteq> [] \<longrightarrow> status q = STOPPED"
    by blast
  have "status q = STOPPED"
  proof (cases "ticks = []")
    case True
    with q1 have "q = ?p1" by simp
    then show ?thesis by simp
  next
    case False
    with q2 show ?thesis by simp
  qed
  with q c2 cnt show ?case unfolding runMonitoring_Cons by simp
qed

text \<open>
  Claim C5 on the source. Take a position stored in a well-formed active map and a
  non-empty run of monitoring ticks in each of which its exit is due and its sell returns
  a failure. Then every tick issues one more sell order for the position, so after \<open>n\<close>
  ticks there are \<open>n\<close> more; the position is still in the active map, with the status
  \<open>STOPPED\<close> that line 424 gave it at the first failure and that no code reads. No number
  of failures ends the attempts, and no state \<open>FAILED\<close> exists.
\<close>

theorem failed_exit_is_retried:
  "wellFormedPositions (activePositions st) \<and> Map_get k (activePositions st) = Some p
     \<and> ticks \<noteq> [] \<and> everyExitFails (transitionConfig st) k ticks p
   \<longrightarrow> count_list (sellOrders (runMonitoring ticks st)) k
           = count_list (sellOrders st) k + length ticks
       \<and> (\<exists>q. Map_get k (activePositions (runMonitoring ticks st)) = Some q
              \<and> status q = STOPPED)"
proof
  assume h: "wellFormedPositions (activePositions st) \<and> Map_get k (activePositions st) = Some p
     \<and> ticks \<noteq> [] \<and> everyExitFails (transitionConfig st) k ticks p"
  then have "count_list (sellOrders (runMonitoring ticks st)) k
           = count_list (sellOrders st) k + length ticks
         \<and> (\<exists>q. Map_get k (activePositions (runMonitoring ticks st)) = Some q
                \<and> (ticks = [] \<longrightarrow> q = p) \<and> (ticks \<noteq> [] \<longrightarrow> status q = STOPPED))"
    using runMonitoring_failing [where st = st and k = k and p = p and ticks = ticks]
    by blast
  with h show "count_list (sellOrders (runMonitoring ticks st)) k
           = count_list (sellOrders st) k + length ticks
       \<and> (\<exists>q. Map_get k (activePositions (runMonitoring ticks st)) = Some q
              \<and> status q = STOPPED)"
    by blast
qed

lemma onePositionLogic_facts:
  "wellFormedPositions (activePositions onePositionLogic)
   \<and> Map_get (0, 1) (activePositions onePositionLogic) = Some examplePosition
   \<and> transitionConfig onePositionLogic = defaultTransitionConfig
   \<and> sellOrders onePositionLogic = []"
  by (simp add: onePositionLogic_def newTransitionLogic_def wellFormedPositions_def Map_get_def
      examplePosition_def)

lemma timeoutTicks_fail:
  "everyExitFails defaultTransitionConfig (0, 1)
     [timeoutTick (7 * 10 ^ 16) 5000, timeoutTick (7 * 10 ^ 16) 10000,
      timeoutTick (7 * 10 ^ 16) 15000, timeoutTick (7 * 10 ^ 16) 20000]
     examplePosition"
  by (simp add: timeoutTick_def priceTick_def failedSwap_def sellFails_def exitDue_def
      getCurrentTokenPrice_def refresh_at_example_prices examplePosition_def
      checkExitConditions_def defaultTransitionConfig_def loadTransitionConfig_def
      Map_get_def aggressive_def percent_lt_def)

theorem failed_exit_is_retried_witness:
  "count_list
     (sellOrders
        (runMonitoring
           [timeoutTick (7 * 10 ^ 16) 5000, timeoutTick (7 * 10 ^ 16) 10000,
            timeoutTick (7 * 10 ^ 16) 15000, timeoutTick (7 * 10 ^ 16) 20000]
           onePositionLogic)) (0, 1) = 4
   \<and> (\<exists>q. Map_get (0, 1)
             (activePositions
                (runMonitoring
                   [timeoutTick (7 * 10 ^ 16) 5000, timeoutTick (7 * 10 ^ 16) 10000,
                    timeoutTick (7 * 10 ^ 16) 15000, timeoutTick (7 * 10 ^ 16) 20000]
                   onePositionLogic)) = Some q
          \<and> status q = STOPPED)"
  using failed_exit_is_retried
    [where st = onePositionLogic and k = "(0, 1)" and p = examplePosition
       and ticks = "[timeoutTick (7 * 10 ^ 16) 5000, timeoutTick (7 * 10 ^ 16) 10000,
            timeoutTick (7 * 10 ^ 16) 15000, timeoutTick (7 * 10 ^ 16) 20000]"]
    onePositionLogic_facts timeoutTicks_fail
  by simp

text \<open>
  After three ticks whose sells fail with \<open>Timeout\<close> the position is \<open>STOPPED\<close> and still
  in the active map, and the fourth tick sends a fourth sell order for it.
\<close>

theorem stopped_position_is_sold_again_counterexample:
  "map (\<lambda>e. status (snd e))
     (activePositions
        (runMonitoring
           [timeoutTick (7 * 10 ^ 16) 5000, timeoutTick (7 * 10 ^ 16) 10000,
            timeoutTick (7 * 10 ^ 16) 15000]
           onePositionLogic)) = [STOPPED]
   \<and> sellOrders
        (runMonitoring
           [timeoutTick (7 * 10 ^ 16) 5000, timeoutTick (7 * 10 ^ 16) 10000,
            timeoutTick (7 * 10 ^ 16) 15000, timeoutTick (7 * 10 ^ 16) 20000]
           onePositionLogic) = [(0, 1), (0, 1), (0, 1), (0, 1)]"
  by (simp add: runMonitoring_def monitorPositions_def monitorPosition_def
      executeExitStrategy_def onePositionLogic_def newTransitionLogic_def timeoutTick_def
      priceTick_def failedSwap_def getCurrentTokenPrice_def refresh_at_example_prices
      examplePosition_def checkExitConditions_def
      defaultTransitionConfig_def loadTransitionConfig_def Map_get_def aggressive_def
      percent_lt_def)

text \<open>
  Claim C7 at a sell that fails. Under the aggressive strategy at a profit of 30% the
  rung 25 triggers the exit. The sell fails, the position stays in the active map with
  \<open>partialSells\<close> still unset, and at the next tick the same rung triggers the exit again:
  two sell orders for the one rung.
\<close>

theorem partial_sell_rung_fires_again:
  "checkExitConditions defaultTransitionConfig 5000
      (updatePositionStatus examplePosition (Fin (13 * 10 ^ 16))) = Some (PartialSell 25)
   \<and> map (\<lambda>e. (status (snd e), partialSells (snd e),
                checkExitConditions defaultTransitionConfig 10000
                  (updatePositionStatus (snd e) (Fin (13 * 10 ^ 16)))))
        (activePositions (runMonitoring [timeoutTick (13 * 10 ^ 16) 5000] onePositionLogic))
      = [(STOPPED, None, Some (PartialSell 25))]
   \<and> sellOrders
        (runMonitoring [timeoutTick (13 * 10 ^ 16) 5000, timeoutTick (13 * 10 ^ 16) 10000]
           onePositionLogic) = [(0, 1), (0, 1)]"
  by (simp add: runMonitoring_def monitorPositions_def monitorPosition_def
      executeExitStrategy_def onePositionLogic_def newTransitionLogic_def timeoutTick_def
      priceTick_def failedSwap_def getCurrentTokenPrice_def refresh_at_example_prices
      examplePosition_def checkExitConditions_def
      defaultTransitionConfig_def loadTransitionConfig_def Map_get_def aggressive_def
      percent_lt_def percent_ge_def notInPartialSells_def)

end
